theory Spec2Isabelle
  imports Complex_Main "HOL-Library.Multiset"
begin

section \<open>Data model of the parsed building\<close>

text \<open>
  JavaScript numbers are modelled by the real numbers they stand for: rounding of
  doubles, NaN and the infinities are outside the model. Express ids are natural
  numbers, as the declared types \<open>number[]\<close> and \<open>Map<number, number>\<close> of the
  parser hold entity ids only. \<open>null\<close> is \<open>None\<close>. Fields of the source
  records that no property below reads (the colour of a mesh, \<open>storeyCount\<close>, the
  project, site and building names, the perimeter and the element list) are left out.
\<close>

record IFCStoreyData =
  name :: string
  elevation :: real
  expressID :: nat
  elementIDs :: "nat list"

record IFCMeshData =
  meshExpressID :: nat
  vertices :: "real list"
  indices :: "nat list"

record IFCBuildingData =
  storeys :: "IFCStoreyData list"
  grossFloorArea :: "real option"
  totalVolume :: "real option"

section \<open>The decoder capability\<close>

text \<open>
  The decoder (web-ifc) is not part of the repository: it is a parameter of the model.
  A call either throws or returns; every \<open>try\<close>/\<open>catch\<close> of the parser is a case
  distinction on that outcome.
\<close>

datatype 'a completion = Throws | Returns 'a

datatype ifc_type =
  IFCBUILDINGSTOREY | IFCRELCONTAINEDINSPATIALSTRUCTURE | IFCRELAGGREGATES
  | IFCSPACE | IFCSLAB | IFCWALL | IFCWALLSTANDARDCASE | IFCCOLUMN | IFCBEAM

text \<open>
  A decoded line is a JavaScript value. Objects are association lists of own properties
  (the first binding of a name counts).
\<close>

datatype jsval =
  JUndefined | JNull | JBool bool | JNum real | JStr string
  | JObj "(string \<times> jsval) list" | JArr "jsval list"

text \<open>
  The spatial relations are read through their declared shape: a reference is an object
  with an optional numeric \<open>value\<close> and an optional numeric \<open>expressID\<close>, a bare
  number, or anything else (\<open>null\<close>, \<open>undefined\<close>, a string). A line that is
  \<open>undefined\<close> makes the first property access throw, so it counts as \<open>Throws\<close>.
  A list attribute that is absent or falsy is \<open>None\<close>; so is one that is not iterable,
  since the \<open>for ... of\<close> then throws before any effect and the handler only continues.
\<close>

datatype ref = RefObject "nat option" "nat option" | RefNumber nat | RefOther

record StoreyLine =
  lineName :: "string option"
  lineElevation :: "real option"

record RelContainedLine =
  RelatingStructure :: ref
  RelatedElements :: "ref list option"

record RelAggregatesLine =
  RelatingObject :: ref
  RelatedObjects :: "ref list option"

record PlacedGeometry =
  geometryExpressID :: nat
  flatTransformation :: "real list"

text \<open>
  \<open>GetFlatMesh\<close> returns \<open>None\<close> for a falsy mesh or one without \<open>geometries\<close>;
  \<open>GetVertexArray\<close> and \<open>GetIndexArray\<close> stand for \<open>GetGeometry\<close> followed by the
  read of the vertex or index buffer of that geometry.
\<close>

record IfcAPI =
  GetLineIDsWithType :: "ifc_type \<Rightarrow> nat list completion"
  GetLine :: "jsval \<Rightarrow> bool \<Rightarrow> jsval completion"
  GetStoreyLine :: "nat \<Rightarrow> StoreyLine completion"
  GetRelContainedLine :: "nat \<Rightarrow> RelContainedLine completion"
  GetRelAggregatesLine :: "nat \<Rightarrow> RelAggregatesLine completion"
  GetFlatMesh :: "nat \<Rightarrow> PlacedGeometry list option completion"
  GetVertexArray :: "nat \<Rightarrow> real list completion"
  GetIndexArray :: "nat \<Rightarrow> nat list completion"
  StreamAllMeshes :: "(nat \<times> PlacedGeometry list) list"

section \<open>Geometry: bounding boxes and baked positions\<close>

record BoundingBox =
  minX :: real
  minY :: real
  minZ :: real
  maxX :: real
  maxY :: real
  maxZ :: real

text \<open>
  The running extents of \<open>computeBoundingBox\<close> start at plus and minus infinity;
  \<open>None\<close> is that start (no vertex folded yet), where \<open>Math.min(Infinity, t) = t\<close>.
\<close>

fun foldVertex :: "BoundingBox option \<Rightarrow> real \<Rightarrow> real \<Rightarrow> real \<Rightarrow> BoundingBox option" where
  "foldVertex None tx ty tz =
     Some \<lparr>minX = tx, minY = ty, minZ = tz, maxX = tx, maxY = ty, maxZ = tz\<rparr>"
| "foldVertex (Some b) tx ty tz =
     Some \<lparr>minX = min (minX b) tx, minY = min (minY b) ty, minZ = min (minZ b) tz,
           maxX = max (maxX b) tx, maxY = max (maxY b) ty, maxZ = max (maxZ b) tz\<rparr>"

text \<open>
  The vertex loop of \<open>computeBoundingBox\<close> (stride 6). A vertex buffer holds whole
  vertices of six slots; a read past the end of a ragged buffer would be \<open>undefined\<close>
  in JavaScript and is not modelled.
\<close>

function vertexLoop ::
  "real list \<Rightarrow> real list \<Rightarrow> nat \<Rightarrow> BoundingBox option \<Rightarrow> BoundingBox option" where
  "vertexLoop matrix verts v acc =
     (if v < length verts then
        (let x = verts ! v; y = verts ! (v + 1); z = verts ! (v + 2);
             tx = matrix ! 0 * x + matrix ! 4 * y + matrix ! 8 * z + matrix ! 12;
             ty = matrix ! 1 * x + matrix ! 5 * y + matrix ! 9 * z + matrix ! 13;
             tz = matrix ! 2 * x + matrix ! 6 * y + matrix ! 10 * z + matrix ! 14
         in vertexLoop matrix verts (v + 6) (foldVertex acc tx ty tz))
      else acc)"
  by pat_completeness auto
termination
  by (relation "measure (\<lambda>(matrix, verts, v, acc). length verts - v)") auto

declare vertexLoop.simps [simp del]

fun geometriesLoop ::
  "IfcAPI \<Rightarrow> PlacedGeometry list \<Rightarrow> BoundingBox option \<Rightarrow> BoundingBox option completion" where
  "geometriesLoop api [] acc = Returns acc"
| "geometriesLoop api (placedGeom # rest) acc =
     (case GetVertexArray api (geometryExpressID placedGeom) of
        Throws \<Rightarrow> Throws
      | Returns verts \<Rightarrow>
          geometriesLoop api rest (vertexLoop (flatTransformation placedGeom) verts 0 acc))"

definition computeBoundingBox :: "IfcAPI \<Rightarrow> nat \<Rightarrow> BoundingBox option" where
  "computeBoundingBox api elementID =
     (case GetFlatMesh api elementID of
        Throws \<Rightarrow> None
      | Returns None \<Rightarrow> None
      | Returns (Some geometries) \<Rightarrow>
          if geometries = [] then None
          else (case geometriesLoop api geometries None of
                  Throws \<Rightarrow> None
                | Returns acc \<Rightarrow> acc))"

text \<open>
  The position loop of \<open>extractIFCGeometry\<close>. \<open>positions\<close> is a typed array of
  \<open>(length / 6) * 3\<close> slots, zero-filled; a write past its end is ignored, as
  \<open>list_update\<close> does.
\<close>

function positionsLoop :: "real list \<Rightarrow> real list \<Rightarrow> nat \<Rightarrow> real list \<Rightarrow> real list" where
  "positionsLoop matrix vertexData v positions =
     (if v * 6 < length vertexData then
        (let srcIdx = v * 6;
             x = vertexData ! srcIdx; y = vertexData ! (srcIdx + 1); z = vertexData ! (srcIdx + 2)
         in positionsLoop matrix vertexData (v + 1)
              (positions
                 [v * 3 := matrix ! 0 * x + matrix ! 4 * y + matrix ! 8 * z + matrix ! 12,
                  v * 3 + 1 := matrix ! 1 * x + matrix ! 5 * y + matrix ! 9 * z + matrix ! 13,
                  v * 3 + 2 := matrix ! 2 * x + matrix ! 6 * y + matrix ! 10 * z + matrix ! 14]))
      else positions)"
  by pat_completeness auto
termination
  by (relation "measure (\<lambda>(matrix, vertexData, v, positions). length vertexData - v * 6)") auto

declare positionsLoop.simps [simp del]

definition bakePositions :: "real list \<Rightarrow> real list \<Rightarrow> real list" where
  "bakePositions matrix vertexData =
     positionsLoop matrix vertexData 0 (replicate (length vertexData div 2) 0)"

fun bakeGeometries :: "IfcAPI \<Rightarrow> nat \<Rightarrow> PlacedGeometry list \<Rightarrow> IFCMeshData list completion" where
  "bakeGeometries api meshID [] = Returns []"
| "bakeGeometries api meshID (placedGeom # rest) =
     (case GetVertexArray api (geometryExpressID placedGeom) of
        Throws \<Rightarrow> Throws
      | Returns vertexData \<Rightarrow>
          (case GetIndexArray api (geometryExpressID placedGeom) of
             Throws \<Rightarrow> Throws
           | Returns indexData \<Rightarrow>
               (case bakeGeometries api meshID rest of
                  Throws \<Rightarrow> Throws
                | Returns ms \<Rightarrow>
                    Returns (\<lparr>meshExpressID = meshID,
                              vertices = bakePositions (flatTransformation placedGeom) vertexData,
                              indices = indexData\<rparr> # ms))))"

fun streamMeshes :: "IfcAPI \<Rightarrow> (nat \<times> PlacedGeometry list) list \<Rightarrow> IFCMeshData list completion" where
  "streamMeshes api [] = Returns []"
| "streamMeshes api ((meshID, geometries) # rest) =
     (case bakeGeometries api meshID geometries of
        Throws \<Rightarrow> Throws
      | Returns ms \<Rightarrow>
          (case streamMeshes api rest of
             Throws \<Rightarrow> Throws
           | Returns ms' \<Rightarrow> Returns (ms @ ms')))"

definition extractIFCGeometry :: "IfcAPI \<Rightarrow> IFCMeshData list completion" where
  "extractIFCGeometry api = streamMeshes api (StreamAllMeshes api)"

definition identityMatrix :: "real list" where
  "identityMatrix = [1, 0, 0, 0,  0, 1, 0, 0,  0, 0, 1, 0,  0, 0, 0, 1]"

definition translationMatrix :: "real \<Rightarrow> real \<Rightarrow> real \<Rightarrow> real list" where
  "translationMatrix tx ty tz = [1, 0, 0, 0,  0, 1, 0, 0,  0, 0, 1, 0,  tx, ty, tz, 1]"

section \<open>The quantity resolver\<close>

text \<open>
  Truthiness, property reads and iteration of JavaScript values. \<open>getProp v p\<close> is
  the read \<open>v.p\<close> of one of the attribute names of the parser on a value that is not
  \<open>null\<close> or \<open>undefined\<close> (a primitive or an array has none of these names), and
  the read \<open>v?.p\<close> on any value. A plain read on \<open>null\<close> or \<open>undefined\<close>
  would throw; every plain read of the resolver stands behind a truthiness guard.
  Strings and arrays are the iterable values of a decoded line.
\<close>

fun truthy :: "jsval \<Rightarrow> bool" where
  "truthy JUndefined = False"
| "truthy JNull = False"
| "truthy (JBool b) = b"
| "truthy (JNum n) = (n \<noteq> 0)"
| "truthy (JStr s) = (s \<noteq> [])"
| "truthy (JObj fs) = True"
| "truthy (JArr xs) = True"

fun getProp :: "jsval \<Rightarrow> string \<Rightarrow> jsval" where
  "getProp (JObj fs) p = (case map_of fs p of Some v \<Rightarrow> v | None \<Rightarrow> JUndefined)"
| "getProp v p = JUndefined"

fun forOf :: "jsval \<Rightarrow> jsval list completion" where
  "forOf (JArr xs) = Returns xs"
| "forOf (JStr s) = Returns (map (\<lambda>c. JStr [c]) s)"
| "forOf v = Throws"

fun typeofObject :: "jsval \<Rightarrow> bool" where
  "typeofObject JNull = True"
| "typeofObject (JObj fs) = True"
| "typeofObject (JArr xs) = True"
| "typeofObject v = False"

text \<open>\<open>quantityNames.includes(v)\<close> on a list of strings, and \<open>a ?? b\<close>.\<close>

fun includesName :: "string list \<Rightarrow> jsval \<Rightarrow> bool" where
  "includesName quantityNames (JStr s) = (s \<in> set quantityNames)"
| "includesName quantityNames v = False"

definition coalesce :: "jsval \<Rightarrow> jsval \<Rightarrow> jsval" where
  "coalesce a b = (if a = JUndefined \<or> a = JNull then b else a)"

definition quantityValue :: "jsval \<Rightarrow> jsval" where
  "quantityValue quantity =
     coalesce (getProp (getProp quantity ''AreaValue'') ''value'')
       (coalesce (getProp (getProp quantity ''VolumeValue'') ''value'')
          (coalesce (getProp (getProp quantity ''LengthValue'') ''value'')
             (getProp (getProp quantity ''NominalValue'') ''value'')))"

text \<open>
  The two inner loops. \<open>Returns (Some n)\<close> is the \<open>return val\<close> of the resolver,
  \<open>Returns None\<close> the normal end of the loop, \<open>Throws\<close> a failure of \<open>GetLine\<close>.
\<close>

fun quantitiesLoop :: "IfcAPI \<Rightarrow> string list \<Rightarrow> jsval list \<Rightarrow> real option completion" where
  "quantitiesLoop api quantityNames [] = Returns None"
| "quantitiesLoop api quantityNames (q # qs) =
     (if \<not> truthy q \<or> \<not> truthy (getProp q ''value'') then quantitiesLoop api quantityNames qs
      else (case GetLine api (getProp q ''value'') False of
              Throws \<Rightarrow> Throws
            | Returns quantity \<Rightarrow>
                if truthy quantity \<and> truthy (getProp quantity ''Name'')
                   \<and> includesName quantityNames (getProp (getProp quantity ''Name'') ''value'')
                then (case quantityValue quantity of
                        JNum n \<Rightarrow> Returns (Some n)
                      | _ \<Rightarrow> quantitiesLoop api quantityNames qs)
                else quantitiesLoop api quantityNames qs))"

fun propertiesLoop :: "IfcAPI \<Rightarrow> string list \<Rightarrow> jsval list \<Rightarrow> real option completion" where
  "propertiesLoop api quantityNames [] = Returns None"
| "propertiesLoop api quantityNames (p # ps) =
     (if \<not> truthy p \<or> \<not> truthy (getProp p ''value'') then propertiesLoop api quantityNames ps
      else (case GetLine api (getProp p ''value'') False of
              Throws \<Rightarrow> Throws
            | Returns property \<Rightarrow>
                if truthy property \<and> truthy (getProp property ''Name'')
                   \<and> includesName quantityNames (getProp (getProp property ''Name'') ''value'')
                then (case getProp (getProp property ''NominalValue'') ''value'' of
                        JNum n \<Rightarrow> Returns (Some n)
                      | _ \<Rightarrow> propertiesLoop api quantityNames ps)
                else propertiesLoop api quantityNames ps))"

text \<open>The body of the inner \<open>try\<close>, for one relation \<open>rel\<close> with a truthy \<open>rel.value\<close>.\<close>

definition relationBody :: "IfcAPI \<Rightarrow> string list \<Rightarrow> jsval \<Rightarrow> real option completion" where
  "relationBody api quantityNames rel =
     (case GetLine api (getProp rel ''value'') True of
        Throws \<Rightarrow> Throws
      | Returns relLine \<Rightarrow>
          if truthy relLine \<and> truthy (getProp relLine ''RelatingPropertyDefinition'') then
            (let psetRef = getProp relLine ''RelatingPropertyDefinition'' in
             case (if typeofObject psetRef \<and> truthy (getProp psetRef ''value'')
                   then GetLine api (getProp psetRef ''value'') True
                   else Returns JNull) of
               Throws \<Rightarrow> Throws
             | Returns pset \<Rightarrow>
                 (case (if truthy pset \<and> truthy (getProp pset ''Quantities'')
                        then (case forOf (getProp pset ''Quantities'') of
                                Throws \<Rightarrow> Throws
                              | Returns qs \<Rightarrow> quantitiesLoop api quantityNames qs)
                        else Returns None) of
                    Throws \<Rightarrow> Throws
                  | Returns (Some n) \<Rightarrow> Returns (Some n)
                  | Returns None \<Rightarrow>
                      if truthy pset \<and> truthy (getProp pset ''HasProperties'')
                      then (case forOf (getProp pset ''HasProperties'') of
                              Throws \<Rightarrow> Throws
                            | Returns ps \<Rightarrow> propertiesLoop api quantityNames ps)
                      else Returns None))
          else Returns None)"

text \<open>The loop over \<open>psets.IsDefinedBy\<close>: the inner \<open>catch\<close> continues with the next relation.\<close>

fun relationsLoop :: "IfcAPI \<Rightarrow> string list \<Rightarrow> jsval list \<Rightarrow> real option" where
  "relationsLoop api quantityNames [] = None"
| "relationsLoop api quantityNames (rel # rels) =
     (if \<not> truthy rel \<or> \<not> truthy (getProp rel ''value'') then relationsLoop api quantityNames rels
      else (case relationBody api quantityNames rel of
              Returns (Some n) \<Rightarrow> Some n
            | _ \<Rightarrow> relationsLoop api quantityNames rels))"

definition extractQuantityFromPsets_try ::
  "IfcAPI \<Rightarrow> jsval \<Rightarrow> string list \<Rightarrow> real option completion" where
  "extractQuantityFromPsets_try api elementID quantityNames =
     (case GetLine api elementID True of
        Throws \<Rightarrow> Throws
      | Returns psets \<Rightarrow>
          if \<not> truthy psets then Returns None
          else if truthy (getProp psets ''IsDefinedBy'') then
            (case forOf (getProp psets ''IsDefinedBy'') of
               Throws \<Rightarrow> Throws
             | Returns rels \<Rightarrow> Returns (relationsLoop api quantityNames rels))
          else Returns None)"

definition extractQuantityFromPsets ::
  "IfcAPI \<Rightarrow> jsval \<Rightarrow> string list \<Rightarrow> real option completion" where
  "extractQuantityFromPsets api elementID quantityNames =
     (case extractQuantityFromPsets_try api elementID quantityNames of
        Throws \<Rightarrow> Returns None
      | Returns r \<Rightarrow> Returns r)"

section \<open>Number formatting\<close>

text \<open>
  Decimal digits of a natural number, \<open>Math.round(x * 100) / 100\<close> (round half up)
  and \<open>x.toFixed(2)\<close> (round half away from zero; the exponent form of numbers from
  \<open>1e21\<close> on is not modelled).
\<close>

definition digit :: "nat \<Rightarrow> char" where
  "digit d = ''0123456789'' ! d"

fun digitsOf :: "nat \<Rightarrow> string" where
  "digitsOf n = (if n < 10 then [digit n] else digitsOf (n div 10) @ [digit (n mod 10)])"

declare digitsOf.simps [simp del]

definition round2 :: "real \<Rightarrow> real" where
  "round2 x = real_of_int \<lfloor>x * 100 + 1 / 2\<rfloor> / 100"

definition toFixed2 :: "real \<Rightarrow> string" where
  "toFixed2 x =
     (let n = nat \<lfloor>\<bar>x\<bar> * 100 + 1 / 2\<rfloor>
      in (if x < 0 then ''-'' else [])
         @ digitsOf (n div 100) @ ''.'' @ [digit (n mod 100 div 10), digit (n mod 10)])"

section \<open>Storeys and the element-to-storey assignment\<close>

text \<open>The three ways the parser reads an id out of a reference.\<close>

fun refValue :: "ref \<Rightarrow> nat option" where
  "refValue (RefObject (Some v) e) = Some v"
| "refValue (RefNumber n) = Some n"
| "refValue r = None"

fun elementRefID :: "ref \<Rightarrow> nat option" where
  "elementRefID (RefObject (Some v) e) = Some v"
| "elementRefID (RefNumber n) = Some n"
| "elementRefID (RefObject None (Some e)) = Some e"
| "elementRefID r = None"

text \<open>
  Storey discovery: the loop pushes one record per storey id; when \<open>GetLine\<close> fails
  the enclosing \<open>try\<close> is left with the records pushed so far (flag \<open>False\<close>).
\<close>

definition storeyRecord :: "nat \<Rightarrow> nat \<Rightarrow> StoreyLine \<Rightarrow> IFCStoreyData" where
  "storeyRecord i sid storey =
     \<lparr>name = (case lineName storey of
                Some s \<Rightarrow> if s \<noteq> [] then s else ''Storey '' @ digitsOf (i + 1)
              | None \<Rightarrow> ''Storey '' @ digitsOf (i + 1)),
      elevation = (case lineElevation storey of Some e \<Rightarrow> e | None \<Rightarrow> 0),
      expressID = sid,
      elementIDs = []\<rparr>"

fun storeyLoop ::
  "IfcAPI \<Rightarrow> nat list \<Rightarrow> nat \<Rightarrow> IFCStoreyData list \<Rightarrow> IFCStoreyData list \<times> bool" where
  "storeyLoop api [] i acc = (acc, True)"
| "storeyLoop api (sid # rest) i acc =
     (case GetStoreyLine api sid of
        Throws \<Rightarrow> (acc, False)
      | Returns storey \<Rightarrow> storeyLoop api rest (i + 1) (acc @ [storeyRecord i sid storey]))"

text \<open>
  \<open>storeys.find(s => s.expressID === id)\<close> yields a reference into the array: the
  index of the first storey with that id. \<open>pushElement\<close> is \<open>elementIDs.push\<close> on it.
\<close>

fun findStorey :: "nat \<Rightarrow> IFCStoreyData list \<Rightarrow> nat option" where
  "findStorey sid [] = None"
| "findStorey sid (s # ss) =
     (if expressID s = sid then Some 0
      else (case findStorey sid ss of None \<Rightarrow> None | Some i \<Rightarrow> Some (Suc i)))"

definition pushElement :: "nat \<Rightarrow> nat \<Rightarrow> IFCStoreyData list \<Rightarrow> IFCStoreyData list" where
  "pushElement i elID ss = ss[i := (ss ! i)\<lparr>elementIDs := elementIDs (ss ! i) @ [elID]\<rparr>]"

type_synonym assignment = "IFCStoreyData list \<times> (nat \<rightharpoonup> nat)"

fun containedLoop :: "nat \<Rightarrow> nat \<Rightarrow> ref list \<Rightarrow> assignment \<Rightarrow> assignment" where
  "containedLoop i storeyExpressID [] st = st"
| "containedLoop i storeyExpressID (elRef # rest) (ss, elementToStorey) =
     (case elementRefID elRef of
        None \<Rightarrow> containedLoop i storeyExpressID rest (ss, elementToStorey)
      | Some elID \<Rightarrow>
          containedLoop i storeyExpressID rest
            (pushElement i elID ss, elementToStorey(elID \<mapsto> storeyExpressID)))"

definition containedRelation :: "IfcAPI \<Rightarrow> nat \<Rightarrow> assignment \<Rightarrow> assignment" where
  "containedRelation api relID st =
     (case GetRelContainedLine api relID of
        Throws \<Rightarrow> st
      | Returns rel \<Rightarrow>
          (case refValue (RelatingStructure rel) of
             None \<Rightarrow> st
           | Some storeyExpressID \<Rightarrow>
               (case findStorey storeyExpressID (fst st) of
                  None \<Rightarrow> st
                | Some i \<Rightarrow>
                    (case RelatedElements rel of
                       None \<Rightarrow> st
                     | Some refs \<Rightarrow> containedLoop i storeyExpressID refs st))))"

fun containmentPass :: "IfcAPI \<Rightarrow> nat list \<Rightarrow> assignment \<Rightarrow> assignment" where
  "containmentPass api [] st = st"
| "containmentPass api (relID # rest) st = containmentPass api rest (containedRelation api relID st)"

fun aggregatedLoop :: "nat \<Rightarrow> ref list \<Rightarrow> assignment \<Rightarrow> assignment" where
  "aggregatedLoop i [] st = st"
| "aggregatedLoop i (objRef # rest) (ss, elementToStorey) =
     (case refValue objRef of
        None \<Rightarrow> aggregatedLoop i rest (ss, elementToStorey)
      | Some objID \<Rightarrow>
          if elementToStorey objID = None
          then aggregatedLoop i rest
                 (pushElement i objID ss, elementToStorey(objID \<mapsto> expressID (ss ! i)))
          else aggregatedLoop i rest (ss, elementToStorey))"

definition aggregatesRelation :: "IfcAPI \<Rightarrow> nat \<Rightarrow> assignment \<Rightarrow> assignment" where
  "aggregatesRelation api relID st =
     (case GetRelAggregatesLine api relID of
        Throws \<Rightarrow> st
      | Returns rel \<Rightarrow>
          (case refValue (RelatingObject rel) of
             None \<Rightarrow> st
           | Some parentID \<Rightarrow>
               (case (case findStorey parentID (fst st) of
                        Some i \<Rightarrow> Some i
                      | None \<Rightarrow>
                          (case snd st parentID of
                             None \<Rightarrow> None
                           | Some sid \<Rightarrow> findStorey sid (fst st))) of
                  None \<Rightarrow> st
                | Some targetStorey \<Rightarrow>
                    (case RelatedObjects rel of
                       None \<Rightarrow> st
                     | Some refs \<Rightarrow> aggregatedLoop targetStorey refs st))))"

fun aggregationPass :: "IfcAPI \<Rightarrow> nat list \<Rightarrow> assignment \<Rightarrow> assignment" where
  "aggregationPass api [] st = st"
| "aggregationPass api (relID # rest) st = aggregationPass api rest (aggregatesRelation api relID st)"

text \<open>
  \<open>storeys.sort((a, b) => a.elevation - b.elevation)\<close> is a stable sort (ECMAScript
  2019); for a key comparison its result is the one stable sorted arrangement, which
  \<open>sort_key\<close> computes.
\<close>

definition assignElements :: "IfcAPI \<Rightarrow> IFCStoreyData list \<Rightarrow> assignment" where
  "assignElements api ss =
     (let st1 = (case GetLineIDsWithType api IFCRELCONTAINEDINSPATIALSTRUCTURE of
                   Throws \<Rightarrow> (ss, Map.empty)
                 | Returns relIDs \<Rightarrow> containmentPass api relIDs (ss, Map.empty))
      in (case GetLineIDsWithType api IFCRELAGGREGATES of
            Throws \<Rightarrow> st1
          | Returns aggIDs \<Rightarrow> aggregationPass api aggIDs st1))"

definition parseStoreys :: "IfcAPI \<Rightarrow> IFCStoreyData list" where
  "parseStoreys api =
     (case GetLineIDsWithType api IFCBUILDINGSTOREY of
        Throws \<Rightarrow> []
      | Returns storeyIDs \<Rightarrow>
          (case storeyLoop api storeyIDs 0 [] of
             (ss, False) \<Rightarrow> ss
           | (ss, True) \<Rightarrow> fst (assignElements api (sort_key elevation ss))))"


section \<open>Gross floor area and total volume\<close>

definition spaceAreaNames :: "string list" where
  "spaceAreaNames = [''GrossFloorArea'', ''NetFloorArea'', ''Area'', ''GrossArea'', ''NetArea'']"

definition slabAreaNames :: "string list" where
  "slabAreaNames = [''GrossArea'', ''NetArea'', ''Area'', ''GrossSideArea'']"

definition volumeNames :: "string list" where
  "volumeNames = [''NetVolume'', ''GrossVolume'', ''Volume'']"

definition STRUCTURAL_TYPES :: "ifc_type list" where
  "STRUCTURAL_TYPES = [IFCWALL, IFCWALLSTANDARDCASE, IFCSLAB, IFCCOLUMN, IFCBEAM]"

text \<open>
  The loops of the area tiers carry \<open>(totalArea, found)\<close>. A throw inside the outer
  \<open>try\<close> leaves \<open>grossFloorArea\<close> at its initial \<open>null\<close>.
\<close>

fun resolverAreaLoop ::
  "IfcAPI \<Rightarrow> string list \<Rightarrow> nat list \<Rightarrow> real \<times> bool \<Rightarrow> (real \<times> bool) completion" where
  "resolverAreaLoop api names [] st = Returns st"
| "resolverAreaLoop api names (i # ids) (totalArea, found) =
     (case extractQuantityFromPsets api (JNum (real i)) names of
        Throws \<Rightarrow> Throws
      | Returns None \<Rightarrow> resolverAreaLoop api names ids (totalArea, found)
      | Returns (Some area) \<Rightarrow> resolverAreaLoop api names ids (totalArea + area, True))"

fun boxAreaLoop :: "IfcAPI \<Rightarrow> nat list \<Rightarrow> real \<times> bool \<Rightarrow> real \<times> bool" where
  "boxAreaLoop api [] st = st"
| "boxAreaLoop api (i # ids) (totalArea, found) =
     (case computeBoundingBox api i of
        None \<Rightarrow> boxAreaLoop api ids (totalArea, found)
      | Some bb \<Rightarrow>
          boxAreaLoop api ids
            (totalArea + (maxX bb - minX bb) * (maxY bb - minY bb), True))"

definition grossFloorArea_try :: "IfcAPI \<Rightarrow> real option completion" where
  "grossFloorArea_try api =
     (case GetLineIDsWithType api IFCSPACE of
        Throws \<Rightarrow> Throws
      | Returns spaceIDs \<Rightarrow>
          (case resolverAreaLoop api spaceAreaNames spaceIDs (0, False) of
             Throws \<Rightarrow> Throws
           | Returns st1 \<Rightarrow>
               (case (if \<not> snd st1
                      then (case GetLineIDsWithType api IFCSLAB of
                              Throws \<Rightarrow> Throws
                            | Returns slabIDs \<Rightarrow> resolverAreaLoop api slabAreaNames slabIDs st1)
                      else Returns st1) of
                  Throws \<Rightarrow> Throws
                | Returns st2 \<Rightarrow>
                    (case (if \<not> snd st2
                           then (case GetLineIDsWithType api IFCSLAB of
                                   Throws \<Rightarrow> Throws
                                 | Returns slabIDs \<Rightarrow> Returns (boxAreaLoop api slabIDs st2))
                           else Returns st2) of
                       Throws \<Rightarrow> Throws
                     | Returns (totalArea, found) \<Rightarrow>
                         Returns (if found then Some (round2 totalArea) else None)))))"

definition parseGrossFloorArea :: "IfcAPI \<Rightarrow> real option" where
  "parseGrossFloorArea api =
     (case grossFloorArea_try api of Throws \<Rightarrow> None | Returns g \<Rightarrow> g)"

text \<open>
  The volume loops carry \<open>(volume, found)\<close>. The \<open>try\<close> around one structural type
  continues with the next type and keeps what was summed before the throw.
\<close>

fun entityVolumeLoop :: "IfcAPI \<Rightarrow> nat list \<Rightarrow> real \<times> bool \<Rightarrow> real \<times> bool" where
  "entityVolumeLoop api [] st = st"
| "entityVolumeLoop api (i # ids) (volume, found) =
     (case extractQuantityFromPsets api (JNum (real i)) volumeNames of
        Throws \<Rightarrow> (volume, found)
      | Returns (Some vol) \<Rightarrow> entityVolumeLoop api ids (volume + vol, True)
      | Returns None \<Rightarrow>
          (case computeBoundingBox api i of
             None \<Rightarrow> entityVolumeLoop api ids (volume, found)
           | Some bb \<Rightarrow>
               entityVolumeLoop api ids
                 (volume + (maxX bb - minX bb) * (maxY bb - minY bb) * (maxZ bb - minZ bb),
                  True)))"

fun structuralTypeLoop :: "IfcAPI \<Rightarrow> ifc_type list \<Rightarrow> real \<times> bool \<Rightarrow> real \<times> bool" where
  "structuralTypeLoop api [] st = st"
| "structuralTypeLoop api (t # ts) st =
     (case GetLineIDsWithType api t of
        Throws \<Rightarrow> structuralTypeLoop api ts st
      | Returns ids \<Rightarrow> structuralTypeLoop api ts (entityVolumeLoop api ids st))"

definition parseTotalVolume :: "IfcAPI \<Rightarrow> real option" where
  "parseTotalVolume api =
     (case structuralTypeLoop api STRUCTURAL_TYPES (0, False) of
        (volume, found) \<Rightarrow> if found then Some (round2 volume) else None)"

text \<open>
  The part of \<open>parseIFCFile\<close> that the properties below are about; the project, site and
  building names, the perimeter and the element list are left out.
\<close>

definition parseIFCFile :: "IfcAPI \<Rightarrow> IFCBuildingData" where
  "parseIFCFile api =
     \<lparr>storeys = parseStoreys api,
      grossFloorArea = parseGrossFloorArea api,
      totalVolume = parseTotalVolume api\<rparr>"


section \<open>The viewer: orbit camera\<close>

text \<open>
  The mount effect of \<open>IFCViewer\<close> declares \<open>rotX\<close>, \<open>rotY\<close>, \<open>distance\<close> and
  the vector \<open>target\<close>; \<open>updateCamera\<close> and the event handlers close over these
  variables. \<open>orbitRef.current = { rotX, rotY, distance, target, updateCamera }\<close> copies
  the three numbers into properties of a new object (\<open>orbitRotX\<close>, \<open>orbitRotY\<close>,
  \<open>orbitDistance\<close>) and shares the one \<open>target\<close> vector and the closure
  \<open>updateCamera\<close> by reference.
\<close>

type_synonym vec3 = "real \<times> real \<times> real"

record ViewerState =
  rotX :: real
  rotY :: real
  distance :: real
  target :: vec3
  orbitRotX :: real
  orbitRotY :: real
  orbitDistance :: real
  cameraPosition :: vec3

definition updateCamera :: "ViewerState \<Rightarrow> ViewerState" where
  "updateCamera st =
     (case target st of
        (tx, ty, tz) \<Rightarrow>
          st\<lparr>cameraPosition :=
               (tx + distance st * sin (rotY st) * cos (rotX st),
                ty + distance st * sin (rotX st),
                tz + distance st * cos (rotY st) * cos (rotX st))\<rparr>)"

definition mountViewer :: "ViewerState" where
  "mountViewer =
     updateCamera
       \<lparr>rotX = - 0.5, rotY = 0.5, distance = 50, target = (0, 0, 0),
        orbitRotX = - 0.5, orbitRotY = 0.5, orbitDistance = 50,
        cameraPosition = (0, 0, 0)\<rparr>"

definition onWheel :: "real \<Rightarrow> ViewerState \<Rightarrow> ViewerState" where
  "onWheel deltaY st =
     updateCamera (st\<lparr>distance := max 1 (min 5000 (distance st * (1 + deltaY * 0.001)))\<rparr>)"

definition onRotateDrag :: "real \<Rightarrow> real \<Rightarrow> ViewerState \<Rightarrow> ViewerState" where
  "onRotateDrag dx dy st =
     updateCamera
       (st\<lparr>rotY := rotY st + dx * 0.005,
           rotX := max (- pi / 2 + 0.1) (min (pi / 2 - 0.1) (rotX st + dy * 0.005))\<rparr>)"

text \<open>
  The bounding box of the mesh group is computed by three.js and is an input here.
  \<open>getCenter\<close> and \<open>getSize\<close> of an empty box are the zero vector.
\<close>

record Box3 =
  boxMin :: vec3
  boxMax :: vec3

definition isEmptyBox :: "Box3 \<Rightarrow> bool" where
  "isEmptyBox box =
     (case (boxMin box, boxMax box) of
        ((x0, y0, z0), (x1, y1, z1)) \<Rightarrow> x1 < x0 \<or> y1 < y0 \<or> z1 < z0)"

definition getCenter :: "Box3 \<Rightarrow> vec3" where
  "getCenter box =
     (if isEmptyBox box then (0, 0, 0)
      else (case (boxMin box, boxMax box) of
              ((x0, y0, z0), (x1, y1, z1)) \<Rightarrow>
                ((x0 + x1) * 0.5, (y0 + y1) * 0.5, (z0 + z1) * 0.5)))"

definition getSize :: "Box3 \<Rightarrow> vec3" where
  "getSize box =
     (if isEmptyBox box then (0, 0, 0)
      else (case (boxMin box, boxMax box) of
              ((x0, y0, z0), (x1, y1, z1)) \<Rightarrow> (x1 - x0, y1 - y0, z1 - z0)))"

definition maxDimOf :: "Box3 \<Rightarrow> real" where
  "maxDimOf box = (case getSize box of (sx, sy, sz) \<Rightarrow> max (max sx sy) sz)"

text \<open>
  The mesh effect, from \<open>Center camera on model\<close> on, with the orbit object present:
  \<open>orbit.target.copy(center)\<close> writes the shared vector, \<open>orbit.distance = maxDim * 2\<close>
  writes the property of the orbit object, \<open>orbit.updateCamera()\<close> runs the closure.
  \<open>None\<close> is the early return on an empty mesh list.
\<close>

definition onMeshesChanged :: "Box3 option \<Rightarrow> ViewerState \<Rightarrow> ViewerState" where
  "onMeshesChanged meshBox st =
     (case meshBox of
        None \<Rightarrow> st
      | Some box \<Rightarrow>
          if maxDimOf box > 0
          then updateCamera (st\<lparr>target := getCenter box, orbitDistance := maxDimOf box * 2\<rparr>)
          else st)"

text \<open>The direction that \<open>updateCamera\<close> scales by the distance.\<close>

definition sphericalToCartesian :: "real \<Rightarrow> real \<Rightarrow> vec3" where
  "sphericalToCartesian yaw pitch = (sin yaw * cos pitch, sin pitch, cos yaw * cos pitch)"

definition addScaled :: "vec3 \<Rightarrow> real \<Rightarrow> vec3 \<Rightarrow> vec3" where
  "addScaled p k d =
     (case (p, d) of ((px, py, pz), (dx, dy, dz)) \<Rightarrow> (px + k * dx, py + k * dy, pz + k * dz))"

section \<open>The viewer: measurement\<close>

datatype MeasureMode = ModeNone | ModePicking

text \<open>
  Scene children that the viewer adds or removes after mount, each with its identity
  (here a number): the preview marker of a first pick and the finished measurement (its
  two end points and its label), both with \<open>userData.isMeasurement\<close>; the group of
  the model meshes; a dimension line with its label; and the wireframe of the bounding
  box. All but the last are of type \<open>Group\<close>; a \<open>Box3Helper\<close> is neither a
  \<open>Group\<close> nor a \<open>Mesh\<close>. The lights and the grid, added at mount and never
  removed, are left out.
\<close>

datatype SceneObject =
  PreviewGroup nat vec3
  | MeasurementGroup nat vec3 vec3 string
  | MeshGroup nat
  | DimensionGroup nat string
  | Box3Helper nat

fun objectID :: "SceneObject \<Rightarrow> nat" where
  "objectID (PreviewGroup i p) = i"
| "objectID (MeasurementGroup i p q l) = i"
| "objectID (MeshGroup i) = i"
| "objectID (DimensionGroup i l) = i"
| "objectID (Box3Helper i) = i"



record MeasureState =
  measureMode :: MeasureMode
  measurePoint :: "vec3 option"
  measurePreview :: "nat option"
  sceneChildren :: "SceneObject list"
  nextObjectID :: nat

definition distanceTo :: "vec3 \<Rightarrow> vec3 \<Rightarrow> real" where
  "distanceTo p q =
     (case (p, q) of
        ((px, py, pz), (qx, qy, qz)) \<Rightarrow>
          sqrt ((px - qx) * (px - qx) + (py - qy) * (py - qy) + (pz - qz) * (pz - qz)))"

definition createMeasurementLine :: "nat \<Rightarrow> vec3 \<Rightarrow> vec3 \<Rightarrow> SceneObject" where
  "createMeasurementLine i p1 p2 = MeasurementGroup i p1 p2 (toFixed2 (distanceTo p1 p2) @ '' m'')"

definition sceneRemove :: "nat \<Rightarrow> SceneObject list \<Rightarrow> SceneObject list" where
  "sceneRemove i children = filter (\<lambda>c. objectID c \<noteq> i) children"

text \<open>
  The click handler is installed only while \<open>measureMode\<close> is \<open>picking\<close>; \<open>hit\<close>
  is the first intersection of the ray with the mesh group, if any.
\<close>

definition onClick :: "vec3 option \<Rightarrow> MeasureState \<Rightarrow> MeasureState" where
  "onClick hit st =
     (if measureMode st \<noteq> ModePicking then st
      else (case hit of
              None \<Rightarrow> st
            | Some point \<Rightarrow>
                (case measurePoint st of
                   None \<Rightarrow>
                     st\<lparr>measurePoint := Some point,
                        sceneChildren := sceneChildren st @ [PreviewGroup (nextObjectID st) point],
                        measurePreview := Some (nextObjectID st),
                        nextObjectID := nextObjectID st + 1\<rparr>
                 | Some p1 \<Rightarrow>
                     (let children = (case measurePreview st of
                                        None \<Rightarrow> sceneChildren st
                                      | Some g \<Rightarrow> sceneRemove g (sceneChildren st))
                      in st\<lparr>measurePreview := None,
                            sceneChildren :=
                              children @ [createMeasurementLine (nextObjectID st) p1 point],
                            measurePoint := None,
                            nextObjectID := nextObjectID st + 1\<rparr>))))"


definition startMeasuring :: "MeasureState" where
  "startMeasuring =
     \<lparr>measureMode = ModePicking, measurePoint = None, measurePreview = None,
      sceneChildren = [], nextObjectID = 0\<rparr>"




section \<open>The storey mesh filter of the index page\<close>

text \<open>
  \<open>filteredMeshes\<close> of \<open>pages/Index.tsx\<close>. The guard \<open>!selectedStoreyID\<close> holds for
  \<open>null\<close> and for the number \<open>0\<close>; \<open>storeys.find\<close> returns the first storey with the
  selected id; the allowed ids are the set of that storey's \<open>elementIDs\<close>.
\<close>

definition filteredMeshes ::
  "nat option \<Rightarrow> IFCBuildingData option \<Rightarrow> IFCMeshData list \<Rightarrow> IFCMeshData list" where
  "filteredMeshes selectedStoreyID buildingData allMeshes =
     (case selectedStoreyID of
        None \<Rightarrow> allMeshes
      | Some sid \<Rightarrow>
          if sid = 0 then allMeshes
          else (case buildingData of
                  None \<Rightarrow> allMeshes
                | Some d \<Rightarrow>
                    (case find (\<lambda>s. expressID s = sid) (storeys d) of
                       None \<Rightarrow> allMeshes
                     | Some storey \<Rightarrow>
                         filter (\<lambda>m. meshExpressID m \<in> set (elementIDs storey)) allMeshes)))"

text \<open>Concrete data for the examples below.\<close>

definition exMesh :: "nat \<Rightarrow> IFCMeshData" where
  "exMesh i = \<lparr>meshExpressID = i, vertices = [], indices = []\<rparr>"

definition exStorey :: "nat \<Rightarrow> nat list \<Rightarrow> IFCStoreyData" where
  "exStorey sid es = \<lparr>name = ''Level'', elevation = 0, expressID = sid, elementIDs = es\<rparr>"

definition exBuilding :: "IFCBuildingData" where
  "exBuilding = \<lparr>storeys = [exStorey 7 [], exStorey 8 [100]],
                  grossFloorArea = None, totalVolume = None\<rparr>"


section \<open>Vocabulary of the statements\<close>







text \<open>
  The elevation the parser reads for a storey id, the storey and containment relation ids
  the decoder enumerates (none when the enumeration throws), the element ids that one
  containment relation records for a set of storey ids, all recorded element ids of a
  storey list, and the order in which one storey list extends another (same storeys,
  more elements).
\<close>

definition storeyElevation :: "IfcAPI \<Rightarrow> nat \<Rightarrow> real" where
  "storeyElevation api sid =
     (case GetStoreyLine api sid of
        Throws \<Rightarrow> 0
      | Returns storey \<Rightarrow> (case lineElevation storey of Some e \<Rightarrow> e | None \<Rightarrow> 0))"

definition discoveredStoreyIDs :: "IfcAPI \<Rightarrow> nat list" where
  "discoveredStoreyIDs api =
     (case GetLineIDsWithType api IFCBUILDINGSTOREY of Throws \<Rightarrow> [] | Returns ids \<Rightarrow> ids)"

definition extends :: "IFCStoreyData list \<Rightarrow> IFCStoreyData list \<Rightarrow> bool" where
  "extends ss ss' \<longleftrightarrow>
     length ss' = length ss \<and>
     (\<forall>j < length ss.
        expressID (ss' ! j) = expressID (ss ! j) \<and> elevation (ss' ! j) = elevation (ss ! j) \<and>
        set (elementIDs (ss ! j)) \<subseteq> set (elementIDs (ss' ! j)))"















text \<open>World coordinate \<open>i\<close> of a vertex buffer under a matrix, as a closed formula.\<close>

definition worldCoord :: "real list \<Rightarrow> real list \<Rightarrow> nat \<Rightarrow> real" where
  "worldCoord M vd i =
     M ! (i mod 3) * vd ! (6 * (i div 3)) + M ! (4 + i mod 3) * vd ! (6 * (i div 3) + 1)
     + M ! (8 + i mod 3) * vd ! (6 * (i div 3) + 2) + M ! (12 + i mod 3)"

section \<open>Example data\<close>

text \<open>
  A small model for the examples: storeys 1 (elevation 3), 2 (no elevation, so 0) and 3
  (elevation 3, no name); slabs 20 and 21 with an explicit \<open>GrossArea\<close> (on slab 20
  after a \<open>Perimeter\<close> property); a wall 30 whose third relation carries a
  \<open>Volume\<close> quantity after an unreadable relation, a \<open>Length\<close> quantity and a
  \<open>Volume\<close> quantity with a non-numeric value; a column 31 without quantities but with one
  translated geometry; containment relations 50 (storey 1), 51 (storey 2) and 52 (a
  structure that is not a storey); and an aggregation 60 under the wall. The variants
  change one accessor each.
\<close>

definition exVertexData :: "real list" where
  "exVertexData = [1, 2, 3, 0, 0, 1,  4, 5, 6, 0, 0, 1]"

definition exMatrix :: "real list" where
  "exMatrix = [2, 0, 0, 0,  0, 3, 0, 0,  0, 0, 4, 0,  10, 20, 30, 1]"


definition exBox :: Box3 where
  "exBox = \<lparr>boxMin = (0, 0, 0), boxMax = (10, 10, 10)\<rparr>"

definition exPending :: MeasureState where
  "exPending = onClick (Some (0, 0, 0)) startMeasuring"


definition exLines :: "jsval \<Rightarrow> bool \<Rightarrow> jsval completion" where
  "exLines v flatten =
     (case v of
        JNum n \<Rightarrow>
          if n = 20 then Returns (JObj [(''IsDefinedBy'', JArr [JObj [(''value'', JNum 200)]])])
          else if n = 200 then
            Returns (JObj [(''RelatingPropertyDefinition'', JObj [(''value'', JNum 201)])])
          else if n = 201 then
            Returns (JObj [(''HasProperties'', JArr [JObj [(''value'', JNum 203)],
                                                     JObj [(''value'', JNum 202)]])])
          else if n = 202 then
            Returns (JObj [(''Name'', JObj [(''value'', JStr ''GrossArea'')]),
                           (''NominalValue'', JObj [(''value'', JNum 30.507)])])
          else if n = 203 then
            Returns (JObj [(''Name'', JObj [(''value'', JStr ''Perimeter'')]),
                           (''NominalValue'', JObj [(''value'', JNum 99)])])
          else if n = 21 then Returns (JObj [(''IsDefinedBy'', JArr [JObj [(''value'', JNum 210)]])])
          else if n = 210 then
            Returns (JObj [(''RelatingPropertyDefinition'', JObj [(''value'', JNum 211)])])
          else if n = 211 then
            Returns (JObj [(''Quantities'', JArr [JObj [(''value'', JNum 212)]])])
          else if n = 212 then
            Returns (JObj [(''Name'', JObj [(''value'', JStr ''GrossArea'')]),
                           (''AreaValue'', JObj [(''value'', JNum 12.25)])])
          else if n = 30 then
            Returns (JObj [(''IsDefinedBy'', JArr [JNull, JObj [(''value'', JNum 299)],
                                                   JObj [(''value'', JNum 300)]])])
          else if n = 300 then
            Returns (JObj [(''RelatingPropertyDefinition'', JObj [(''value'', JNum 301)])])
          else if n = 301 then
            Returns (JObj [(''Quantities'', JArr [JObj [(''value'', JNum 304)],
                                                  JObj [(''value'', JNum 302)],
                                                  JObj [(''value'', JNum 303)]])])
          else if n = 302 then
            Returns (JObj [(''Name'', JObj [(''value'', JStr ''Volume'')]),
                           (''VolumeValue'', JObj [(''value'', JStr ''n/a'')])])
          else if n = 303 then
            Returns (JObj [(''Name'', JObj [(''value'', JStr ''Volume'')]),
                           (''VolumeValue'', JObj [(''value'', JNum 12.504)])])
          else if n = 304 then
            Returns (JObj [(''Name'', JObj [(''value'', JStr ''Length'')]),
                           (''LengthValue'', JObj [(''value'', JNum 4)])])
          else if n = 31 then Returns (JObj [(''Name'', JObj [(''value'', JStr ''Column'')])])
          else if n = 41 then Returns JNull
          else if n = 42 then
            Returns (JObj [(''IsDefinedBy'', JArr [JNull, JObj [(''value'', JNum 299)]])])
          else if n = 43 then Returns (JObj [(''IsDefinedBy'', JNum 7)])
          else Throws
      | _ \<Rightarrow> Throws)"

definition exIDs :: "ifc_type \<Rightarrow> nat list completion" where
  "exIDs t =
     (case t of
        IFCBUILDINGSTOREY \<Rightarrow> Returns [1, 2, 3]
      | IFCRELCONTAINEDINSPATIALSTRUCTURE \<Rightarrow> Returns [50, 51, 52]
      | IFCRELAGGREGATES \<Rightarrow> Returns [60]
      | IFCSPACE \<Rightarrow> Returns []
      | IFCSLAB \<Rightarrow> Returns [20, 21]
      | IFCWALL \<Rightarrow> Returns [30]
      | IFCWALLSTANDARDCASE \<Rightarrow> Throws
      | IFCCOLUMN \<Rightarrow> Returns [31]
      | IFCBEAM \<Rightarrow> Returns [])"

definition exStoreyLines :: "nat \<Rightarrow> StoreyLine completion" where
  "exStoreyLines i =
     (if i = 1 then Returns \<lparr>lineName = Some ''Upper'', lineElevation = Some 3\<rparr>
      else if i = 2 then Returns \<lparr>lineName = Some ''Ground'', lineElevation = None\<rparr>
      else if i = 3 then Returns \<lparr>lineName = None, lineElevation = Some 3\<rparr>
      else Throws)"

definition exContained :: "nat \<Rightarrow> RelContainedLine completion" where
  "exContained i =
     (if i = 50 then
        Returns \<lparr>RelatingStructure = RefObject (Some 1) None,
                 RelatedElements = Some [RefObject (Some 30) None, RefNumber 31]\<rparr>
      else if i = 51 then
        Returns \<lparr>RelatingStructure = RefNumber 2,
                 RelatedElements = Some [RefObject None (Some 20), RefOther]\<rparr>
      else if i = 52 then
        Returns \<lparr>RelatingStructure = RefObject (Some 9) None,
                 RelatedElements = Some [RefNumber 21]\<rparr>
      else Throws)"

definition exAggregates :: "nat \<Rightarrow> RelAggregatesLine completion" where
  "exAggregates i =
     (if i = 60 then
        Returns \<lparr>RelatingObject = RefObject (Some 30) None,
                 RelatedObjects = Some [RefObject (Some 32) None, RefObject (Some 31) None]\<rparr>
      else Throws)"

definition exGeometry :: PlacedGeometry where
  "exGeometry = \<lparr>geometryExpressID = 310, flatTransformation = translationMatrix 10 20 30\<rparr>"

definition exApi :: IfcAPI where
  "exApi =
     \<lparr>GetLineIDsWithType = exIDs,
      GetLine = exLines,
      GetStoreyLine = exStoreyLines,
      GetRelContainedLine = exContained,
      GetRelAggregatesLine = exAggregates,
      GetFlatMesh = (\<lambda>i. if i = 31 then Returns (Some [exGeometry]) else Returns None),
      GetVertexArray = (\<lambda>i. if i = 310 then Returns [0, 0, 0, 0, 0, 1,  1, 2, 3, 0, 0, 1] else Throws),
      GetIndexArray = (\<lambda>i. if i = 310 then Returns [0, 1, 0] else Throws),
      StreamAllMeshes = [(31, [exGeometry])]\<rparr>"

definition exVolumeApi :: IfcAPI where
  "exVolumeApi =
     exApi\<lparr>GetLineIDsWithType :=
              (\<lambda>t. if t = IFCWALL then Returns [30]
                    else if t = IFCCOLUMN then Returns [31] else Returns [])\<rparr>"


definition exBrokenStoreyApi :: IfcAPI where
  "exBrokenStoreyApi =
     exApi\<lparr>GetStoreyLine := (\<lambda>i. if i = 3 then Throws else exStoreyLines i)\<rparr>"


definition exRecords :: "IFCStoreyData list" where
  "exRecords =
     [\<lparr>name = ''Upper'', elevation = 3, expressID = 1, elementIDs = []\<rparr>,
      \<lparr>name = ''Ground'', elevation = 0, expressID = 2, elementIDs = []\<rparr>,
      \<lparr>name = ''Storey 3'', elevation = 3, expressID = 3, elementIDs = []\<rparr>]"

definition exSorted :: "IFCStoreyData list" where
  "exSorted =
     [\<lparr>name = ''Ground'', elevation = 0, expressID = 2, elementIDs = []\<rparr>,
      \<lparr>name = ''Upper'', elevation = 3, expressID = 1, elementIDs = []\<rparr>,
      \<lparr>name = ''Storey 3'', elevation = 3, expressID = 3, elementIDs = []\<rparr>]"


section \<open>Properties of the geometry baker\<close>

lemma length_positionsLoop [simp]:
  "length (positionsLoop M vd v ps) = length ps"
  by (induction M vd v ps rule: positionsLoop.induct)
     (subst positionsLoop.simps, simp add: Let_def)

lemma worldCoord_0:
  "worldCoord M vd (3 * v) =
     M ! 0 * vd ! (v * 6) + M ! 4 * vd ! (v * 6 + 1) + M ! 8 * vd ! (v * 6 + 2) + M ! 12"
  by (simp add: worldCoord_def mult.commute)

lemma worldCoord_1:
  "worldCoord M vd (3 * v + 1) =
     M ! 1 * vd ! (v * 6) + M ! 5 * vd ! (v * 6 + 1) + M ! 9 * vd ! (v * 6 + 2) + M ! 13"
proof -
  have "(3 * v + 1) mod 3 = 1" "(3 * v + 1) div 3 = v" by presburger+
  then show ?thesis unfolding worldCoord_def by (simp add: mult.commute)
qed

lemma worldCoord_2:
  "worldCoord M vd (3 * v + 2) =
     M ! 2 * vd ! (v * 6) + M ! 6 * vd ! (v * 6 + 1) + M ! 10 * vd ! (v * 6 + 2) + M ! 14"
proof -
  have "(3 * v + 2) mod 3 = 2" "(3 * v + 2) div 3 = v" by presburger+
  then show ?thesis unfolding worldCoord_def by (simp add: mult.commute)
qed

lemma positionsLoop_step:
  "v * 6 < length vd \<Longrightarrow>
   positionsLoop M vd v ps =
   positionsLoop M vd (v + 1)
     (ps[v * 3 := worldCoord M vd (3 * v), v * 3 + 1 := worldCoord M vd (3 * v + 1),
         v * 3 + 2 := worldCoord M vd (3 * v + 2)])"
  unfolding worldCoord_0 worldCoord_1 worldCoord_2
  by (subst positionsLoop.simps) (simp add: Let_def)

lemma positionsLoop_stop:
  "\<not> v * 6 < length vd \<Longrightarrow> positionsLoop M vd v ps = ps"
  by (subst positionsLoop.simps) simp

lemma positionsLoop_nth:
  "length vd = 6 * n \<Longrightarrow> length ps = 3 * n \<Longrightarrow> i < 3 * n \<Longrightarrow>
   positionsLoop M vd v ps ! i = (if 3 * v \<le> i then worldCoord M vd i else ps ! i)"
proof (induction M vd v ps rule: positionsLoop.induct)
  case (1 M vd v ps)
  show ?case
  proof (cases "v * 6 < length vd")
    case False
    then have "n \<le> v" using "1.prems" by simp
    then have "\<not> 3 * v \<le> i" using "1.prems" by simp
    with False show ?thesis by (simp add: positionsLoop_stop)
  next
    case True
    let ?ps' = "ps[v * 3 := worldCoord M vd (3 * v), v * 3 + 1 := worldCoord M vd (3 * v + 1),
                   v * 3 + 2 := worldCoord M vd (3 * v + 2)]"
    have vn: "v < n" using True "1.prems" by simp
    have step: "positionsLoop M vd v ps = positionsLoop M vd (v + 1) ?ps'"
      by (rule positionsLoop_step[OF True])
    have "positionsLoop M vd (v + 1)
            (ps[v * 3 := M ! 0 * vd ! (v * 6) + M ! 4 * vd ! (v * 6 + 1) + M ! 8 * vd ! (v * 6 + 2) + M ! 12,
                v * 3 + 1 := M ! 1 * vd ! (v * 6) + M ! 5 * vd ! (v * 6 + 1) + M ! 9 * vd ! (v * 6 + 2) + M ! 13,
                v * 3 + 2 := M ! 2 * vd ! (v * 6) + M ! 6 * vd ! (v * 6 + 1) + M ! 10 * vd ! (v * 6 + 2) + M ! 14]) ! i =
          (if 3 * (v + 1) \<le> i then worldCoord M vd i
           else ps[v * 3 := M ! 0 * vd ! (v * 6) + M ! 4 * vd ! (v * 6 + 1) + M ! 8 * vd ! (v * 6 + 2) + M ! 12,
                v * 3 + 1 := M ! 1 * vd ! (v * 6) + M ! 5 * vd ! (v * 6 + 1) + M ! 9 * vd ! (v * 6 + 2) + M ! 13,
                v * 3 + 2 := M ! 2 * vd ! (v * 6) + M ! 6 * vd ! (v * 6 + 1) + M ! 10 * vd ! (v * 6 + 2) + M ! 14] ! i)"
      by (rule "1.IH"[OF True refl refl refl refl]) (use "1.prems" in simp_all)
    then have IH: "positionsLoop M vd (v + 1) ?ps' ! i =
              (if 3 * (v + 1) \<le> i then worldCoord M vd i else ?ps' ! i)"
      unfolding worldCoord_0 worldCoord_1 worldCoord_2 .
    show ?thesis
    proof (cases "3 * (v + 1) \<le> i")
      case True
      then show ?thesis using step IH by simp
    next
      case False
      note notge = this
      show ?thesis
      proof (cases "3 * v \<le> i")
        case True
        then have "i = 3 * v \<or> i = 3 * v + 1 \<or> i = 3 * v + 2" using notge by arith
        moreover have "3 * v + 2 < length ps" using vn "1.prems" by simp
        ultimately show ?thesis using step IH notge True
          by (auto simp: mult.commute nth_list_update)
      next
        case False
        then show ?thesis using step IH notge "1.prems" by (simp add: mult.commute)
      qed
    qed
  qed
qed

lemma vertexLoop_step:
  "v < length verts \<Longrightarrow>
   vertexLoop M verts v acc =
   vertexLoop M verts (v + 6)
     (foldVertex acc
        (M ! 0 * verts ! v + M ! 4 * verts ! (v + 1) + M ! 8 * verts ! (v + 2) + M ! 12)
        (M ! 1 * verts ! v + M ! 5 * verts ! (v + 1) + M ! 9 * verts ! (v + 2) + M ! 13)
        (M ! 2 * verts ! v + M ! 6 * verts ! (v + 1) + M ! 10 * verts ! (v + 2) + M ! 14))"
  by (subst vertexLoop.simps) (simp add: Let_def)

lemma vertexLoop_stop: "\<not> v < length verts \<Longrightarrow> vertexLoop M verts v acc = acc"
  by (subst vertexLoop.simps) simp

lemma vertexLoop_foldl:
  "length vd = 6 * n \<Longrightarrow> k \<le> n \<Longrightarrow>
   vertexLoop M vd (6 * k) acc =
   foldl (\<lambda>a j. foldVertex a (worldCoord M vd (3 * j)) (worldCoord M vd (3 * j + 1))
                               (worldCoord M vd (3 * j + 2))) acc [k..<n]"
proof (induction "n - k" arbitrary: k acc)
  case 0
  then have "k = n" by simp
  then show ?case using "0.prems" by (simp add: vertexLoop_stop)
next
  case (Suc d)
  then have kn: "k < n" by simp
  then have lt: "6 * k < length vd" using Suc.prems by simp
  have six: "6 * k + 6 = 6 * (k + 1)" by simp
  have IH: "vertexLoop M vd (6 * (k + 1)) acc' =
     foldl (\<lambda>a j. foldVertex a (worldCoord M vd (3 * j)) (worldCoord M vd (3 * j + 1))
                               (worldCoord M vd (3 * j + 2))) acc' [k + 1..<n]" for acc'
    using Suc.hyps(1)[of "k + 1" acc'] Suc.hyps(2) Suc.prems kn by simp
  have up: "[k..<n] = k # [k + 1..<n]" using kn by (simp add: upt_conv_Cons)
  have w: "worldCoord M vd (3 * k) =
             M ! 0 * vd ! (6 * k) + M ! 4 * vd ! (6 * k + 1) + M ! 8 * vd ! (6 * k + 2) + M ! 12"
          "worldCoord M vd (3 * k + 1) =
             M ! 1 * vd ! (6 * k) + M ! 5 * vd ! (6 * k + 1) + M ! 9 * vd ! (6 * k + 2) + M ! 13"
          "worldCoord M vd (3 * k + 2) =
             M ! 2 * vd ! (6 * k) + M ! 6 * vd ! (6 * k + 1) + M ! 10 * vd ! (6 * k + 2) + M ! 14"
    by (simp_all only: worldCoord_0 worldCoord_1 worldCoord_2 mult.commute[of k 6])
  have "vertexLoop M vd (6 * k) acc =
        vertexLoop M vd (6 * (k + 1))
          (foldVertex acc (worldCoord M vd (3 * k)) (worldCoord M vd (3 * k + 1))
                          (worldCoord M vd (3 * k + 2)))"
    unfolding w by (simp only: vertexLoop_step[OF lt] six)
  then show ?case
    unfolding IH up by simp
qed

lemma length_bakePositions: "length (bakePositions M vd) = length vd div 2"
  by (simp add: bakePositions_def)

lemma bakePositions_nth:
  "length vd = 6 * n \<Longrightarrow> i < 3 * n \<Longrightarrow> bakePositions M vd ! i = worldCoord M vd i"
  using positionsLoop_nth[of vd n "replicate (length vd div 2) 0" i M 0]
  by (simp add: bakePositions_def)

text \<open>
  C5. Baking a vertex applies \<open>world = M * local\<close> with \<open>w = 1\<close> in the column-major
  layout: for a buffer of \<open>n\<close> whole vertices, slot \<open>i\<close> of the baked positions is
  row \<open>i mod 3\<close> of the matrix (\<open>M[r], M[4 + r], M[8 + r], M[12 + r]\<close>) applied to vertex
  \<open>i div 3\<close>. So the identity matrix reproduces the input coordinates, a pure translation
  adds the translation, and the bounding-box loop folds exactly the coordinates that the
  baking loop stores. (Numbers are real: the rounding of the stored 32-bit floats is not
  modelled.)
\<close>

theorem bake_transform_layout:
  "length vertexData = 6 * n \<and> i < 3 * n \<longrightarrow>
     bakePositions M vertexData ! i =
       M ! (i mod 3) * vertexData ! (6 * (i div 3))
       + M ! (4 + i mod 3) * vertexData ! (6 * (i div 3) + 1)
       + M ! (8 + i mod 3) * vertexData ! (6 * (i div 3) + 2)
       + M ! (12 + i mod 3) \<and>
     bakePositions identityMatrix vertexData ! i = vertexData ! (6 * (i div 3) + i mod 3) \<and>
     bakePositions (translationMatrix tx ty tz) vertexData ! i =
       vertexData ! (6 * (i div 3) + i mod 3) + [tx, ty, tz] ! (i mod 3) \<and>
     vertexLoop M vertexData 0 acc =
       foldl (\<lambda>a j. foldVertex a (bakePositions M vertexData ! (3 * j))
                                   (bakePositions M vertexData ! (3 * j + 1))
                                   (bakePositions M vertexData ! (3 * j + 2))) acc [0..<n]"
proof (intro impI, elim conjE)
  assume len: "length vertexData = 6 * n" and i: "i < 3 * n"
  have c: "i mod 3 = 0 \<or> i mod 3 = 1 \<or> i mod 3 = 2" by arith
  have layout: "bakePositions M vertexData ! i =
       M ! (i mod 3) * vertexData ! (6 * (i div 3))
       + M ! (4 + i mod 3) * vertexData ! (6 * (i div 3) + 1)
       + M ! (8 + i mod 3) * vertexData ! (6 * (i div 3) + 2)
       + M ! (12 + i mod 3)"
    using bakePositions_nth[OF len i] by (simp add: worldCoord_def)
  have ident: "bakePositions identityMatrix vertexData ! i = vertexData ! (6 * (i div 3) + i mod 3)"
    using c bakePositions_nth[OF len i, of identityMatrix]
    by (auto simp: worldCoord_def identityMatrix_def)
  have trans: "bakePositions (translationMatrix tx ty tz) vertexData ! i =
       vertexData ! (6 * (i div 3) + i mod 3) + [tx, ty, tz] ! (i mod 3)"
    using c bakePositions_nth[OF len i, of "translationMatrix tx ty tz"]
    by (auto simp: worldCoord_def translationMatrix_def)
  have "foldl (\<lambda>a j. foldVertex a (bakePositions M vertexData ! (3 * j))
                                   (bakePositions M vertexData ! (3 * j + 1))
                                   (bakePositions M vertexData ! (3 * j + 2))) acc' js =
        foldl (\<lambda>a j. foldVertex a (worldCoord M vertexData (3 * j)) (worldCoord M vertexData (3 * j + 1))
                               (worldCoord M vertexData (3 * j + 2))) acc' js"
    if "set js \<subseteq> {0..<n}" for js acc'
    using that
  proof (induction js arbitrary: acc')
    case Nil
    then show ?case by simp
  next
    case (Cons j js)
    then have "j < n" by simp
    then have "3 * j < 3 * n" "3 * j + 1 < 3 * n" "3 * j + 2 < 3 * n" by simp_all
    then show ?case using Cons by (simp add: bakePositions_nth[OF len])
  qed
  from this[of "[0..<n]" acc] vertexLoop_foldl[OF len, of 0 M acc]
  have bb: "vertexLoop M vertexData 0 acc =
       foldl (\<lambda>a j. foldVertex a (bakePositions M vertexData ! (3 * j))
                                   (bakePositions M vertexData ! (3 * j + 1))
                                   (bakePositions M vertexData ! (3 * j + 2))) acc [0..<n]"
    by simp
  from layout ident trans bb show "bakePositions M vertexData ! i =
       M ! (i mod 3) * vertexData ! (6 * (i div 3))
       + M ! (4 + i mod 3) * vertexData ! (6 * (i div 3) + 1)
       + M ! (8 + i mod 3) * vertexData ! (6 * (i div 3) + 2)
       + M ! (12 + i mod 3) \<and>
     bakePositions identityMatrix vertexData ! i = vertexData ! (6 * (i div 3) + i mod 3) \<and>
     bakePositions (translationMatrix tx ty tz) vertexData ! i =
       vertexData ! (6 * (i div 3) + i mod 3) + [tx, ty, tz] ! (i mod 3) \<and>
     vertexLoop M vertexData 0 acc =
       foldl (\<lambda>a j. foldVertex a (bakePositions M vertexData ! (3 * j))
                                   (bakePositions M vertexData ! (3 * j + 1))
                                   (bakePositions M vertexData ! (3 * j + 2))) acc [0..<n]"
    by blast
qed

theorem bake_transform_layout_witness:
  "length exVertexData = 6 * 2 \<and> (4::nat) < 3 * 2 \<and>
   bakePositions exMatrix exVertexData ! 4 = 35 \<and>
   bakePositions identityMatrix exVertexData ! 4 = 5 \<and>
   bakePositions (translationMatrix 10 20 30) exVertexData ! 4 = 25 \<and>
   vertexLoop exMatrix exVertexData 0 None =
     foldl (\<lambda>a j. foldVertex a (bakePositions exMatrix exVertexData ! (3 * j))
                                 (bakePositions exMatrix exVertexData ! (3 * j + 1))
                                 (bakePositions exMatrix exVertexData ! (3 * j + 2))) None [0..<2]"
proof -
  have h: "length exVertexData = 6 * 2 \<and> (4::nat) < 3 * 2" by (simp add: exVertexData_def)
  have m: "(4::nat) mod 3 = 1" "(4::nat) div 3 = 1" by simp_all
  from bake_transform_layout[of exVertexData 2 4 exMatrix 10 20 30 None] h
  show ?thesis
    unfolding m by (simp add: exVertexData_def exMatrix_def)
qed


section \<open>Properties of the mesh filter\<close>

text \<open>
  C9. With no storey selected (null selection) the filter returns the full mesh list
  unchanged; with a storey selected (a non-zero id, found in the building data) whose
  \<open>elementIDs\<close> is empty, the filter returns no mesh at all.
\<close>

theorem filteredMeshes_null_and_empty_storey:
  "filteredMeshes None buildingData allMeshes = allMeshes \<and>
   (sid \<noteq> 0 \<and> find (\<lambda>s. expressID s = sid) (storeys d) = Some storey \<and>
    elementIDs storey = []
    \<longrightarrow> filteredMeshes (Some sid) (Some d) allMeshes = [])"
  by (simp add: filteredMeshes_def)

theorem filteredMeshes_null_and_empty_storey_witness:
  "filteredMeshes None (Some exBuilding) [exMesh 100, exMesh 101] = [exMesh 100, exMesh 101] \<and>
   (7::nat) \<noteq> 0 \<and> find (\<lambda>s. expressID s = 7) (storeys exBuilding) = Some (exStorey 7 []) \<and>
   elementIDs (exStorey 7 []) = [] \<and>
   filteredMeshes (Some 7) (Some exBuilding) [exMesh 100, exMesh 101] = []"
  using filteredMeshes_null_and_empty_storey
    [of "Some exBuilding" "[exMesh 100, exMesh 101]" 7 exBuilding "exStorey 7 []"]
  by (simp add: exBuilding_def exStorey_def)

text \<open>
  C10. A selected storey id that matches no storey of the current building data, and
  likewise the id 0 (which the falsiness guard treats as no selection), makes the filter
  return the complete mesh list, not an empty one; so does any selection while there is no
  building data.
\<close>

theorem filteredMeshes_unknown_or_zero_id:
  "(find (\<lambda>s. expressID s = sid) (storeys d) = None
    \<longrightarrow> filteredMeshes (Some sid) (Some d) allMeshes = allMeshes) \<and>
   filteredMeshes (Some 0) buildingData allMeshes = allMeshes \<and>
   filteredMeshes selectedStoreyID None allMeshes = allMeshes"
  by (simp add: filteredMeshes_def split: option.split)

theorem filteredMeshes_unknown_or_zero_id_witness:
  "find (\<lambda>s. expressID s = 9) (storeys exBuilding) = None \<and>
   filteredMeshes (Some 9) (Some exBuilding) [exMesh 100, exMesh 101] = [exMesh 100, exMesh 101] \<and>
   filteredMeshes (Some 0) (Some exBuilding) [exMesh 100, exMesh 101] = [exMesh 100, exMesh 101]"
  using filteredMeshes_unknown_or_zero_id
    [of 9 exBuilding "[exMesh 100, exMesh 101]" "Some exBuilding" "Some 7"]
  by (simp add: exBuilding_def exStorey_def)

section \<open>Properties of the viewer\<close>

lemma onMeshesChanged_camera:
  "0 < maxDimOf box \<Longrightarrow>
   onMeshesChanged (Some box) st =
     st\<lparr>target := getCenter box, orbitDistance := maxDimOf box * 2,
        cameraPosition :=
          addScaled (getCenter box) (distance st) (sphericalToCartesian (rotY st) (rotX st))\<rparr>"
  by (cases "getCenter box")
     (simp add: onMeshesChanged_def updateCamera_def addScaled_def sphericalToCartesian_def
        mult.assoc)

lemma sin_half_pos: "0 < sin (1 / 2 :: real)"
proof -
  have "(1 / 2 :: real) < pi" using pi_ge_two by linarith
  then show ?thesis by (intro sin_gt_zero) simp_all
qed

lemma exBox_dims: "maxDimOf exBox = 10" "getCenter exBox = (5, 5, 5)"
  by (simp_all add: maxDimOf_def getSize_def getCenter_def isEmptyBox_def exBox_def)

lemma mount_fields:
  "distance mountViewer = 50" "rotX mountViewer = - (1 / 2)" "rotY mountViewer = 1 / 2"
  by (simp_all add: mountViewer_def updateCamera_def)

text \<open>
  C6. A model with non-zero extent, loaded right after mount: the target is recentred on
  the centre of the bounding box and \<open>orbit.distance\<close> receives twice the largest
  dimension, but \<open>updateCamera\<close> reads the closure variable \<open>distance\<close>, which the
  assignment to the property of the orbit object does not change. The camera is placed at
  the old distance 50 from the new target, not at twice the largest dimension.
\<close>

theorem onMeshesChanged_distance_at_mount:
  "cameraPosition (onMeshesChanged (Some exBox) mountViewer) =
     addScaled (getCenter exBox) 50 (sphericalToCartesian (1 / 2) (- (1 / 2))) \<and>
   cameraPosition (onMeshesChanged (Some exBox) mountViewer) \<noteq>
     addScaled (getCenter exBox) (2 * maxDimOf exBox) (sphericalToCartesian (1 / 2) (- (1 / 2))) \<and>
   distance (onMeshesChanged (Some exBox) mountViewer) = 50 \<and>
   orbitDistance (onMeshesChanged (Some exBox) mountViewer) = 2 * maxDimOf exBox \<and>
   target (onMeshesChanged (Some exBox) mountViewer) = getCenter exBox"
proof -
  have pos: "0 < maxDimOf exBox" by (simp add: exBox_dims)
  have s: "sin (1 / 2 :: real) \<noteq> 0" using sin_half_pos by simp
  show ?thesis
    unfolding onMeshesChanged_camera[OF pos]
    using s by (simp add: mount_fields exBox_dims addScaled_def sphericalToCartesian_def)
qed

lemma digitsOf_small: "n < 10 \<Longrightarrow> digitsOf n = [digit n]"
  by (subst digitsOf.simps) simp



































section \<open>Properties of the quantity resolver and the totals\<close>

lemma extractQuantityFromPsets_returns:
  "\<exists>r. extractQuantityFromPsets api elementID quantityNames = Returns r"
  by (simp add: extractQuantityFromPsets_def split: completion.split)

lemma extractQuantityFromPsets_not_Throws [simp]:
  "extractQuantityFromPsets api elementID quantityNames \<noteq> Throws"
  using extractQuantityFromPsets_returns[of api elementID quantityNames] by auto

lemma relationsLoop_None:
  "(\<forall>rel \<in> set rels. \<forall>n. relationBody api quantityNames rel \<noteq> Returns (Some n)) \<Longrightarrow>
   relationsLoop api quantityNames rels = None"
proof (induction rels)
  case Nil
  then show ?case by simp
next
  case (Cons rel rels)
  then show ?case
    by (cases "relationBody api quantityNames rel") (auto split: option.splits)
qed

lemma quantitiesLoop_skip:
  "GetLine api (getProp q ''value'') False = Returns quantity \<Longrightarrow>
   (\<forall>n. quantityValue quantity \<noteq> JNum n) \<Longrightarrow>
   quantitiesLoop api quantityNames (q # qs) = quantitiesLoop api quantityNames qs"
  by (cases "quantityValue quantity") auto








text \<open>
  C4. The resolver never raises: for every decoder, every entity id (any JavaScript
  value) and every list of names it returns. A failing or falsy entity line, a missing or
  non-iterable \<open>IsDefinedBy\<close>, and relations none of which yields a number all give
  \<open>null\<close>; a relation whose line cannot be read and a quantity whose value is not a
  number contribute nothing and the traversal goes on with the next one.
\<close>

theorem extractQuantityFromPsets_total:
  "(\<exists>r. extractQuantityFromPsets api elementID quantityNames = Returns r) \<and>
   (GetLine api elementID True = Throws \<longrightarrow>
      extractQuantityFromPsets api elementID quantityNames = Returns None) \<and>
   (\<forall>psets. GetLine api elementID True = Returns psets \<and>
            (\<not> truthy psets \<or> \<not> truthy (getProp psets ''IsDefinedBy'')
             \<or> forOf (getProp psets ''IsDefinedBy'') = Throws) \<longrightarrow>
      extractQuantityFromPsets api elementID quantityNames = Returns None) \<and>
   (\<forall>psets rels. GetLine api elementID True = Returns psets \<and> truthy psets \<and>
            truthy (getProp psets ''IsDefinedBy'') \<and>
            forOf (getProp psets ''IsDefinedBy'') = Returns rels \<and>
            (\<forall>rel \<in> set rels. \<forall>n. relationBody api quantityNames rel \<noteq> Returns (Some n)) \<longrightarrow>
      extractQuantityFromPsets api elementID quantityNames = Returns None) \<and>
   (GetLine api (getProp rel ''value'') True = Throws \<longrightarrow>
      relationsLoop api quantityNames (rel # rels') = relationsLoop api quantityNames rels') \<and>
   (\<forall>quantity. GetLine api (getProp q ''value'') False = Returns quantity \<and>
            (\<forall>n. quantityValue quantity \<noteq> JNum n) \<longrightarrow>
      quantitiesLoop api quantityNames (q # qs) = quantitiesLoop api quantityNames qs)"
proof (intro conjI allI impI)
  show "\<exists>r. extractQuantityFromPsets api elementID quantityNames = Returns r"
    by (rule extractQuantityFromPsets_returns)
next
  assume "GetLine api elementID True = Throws"
  then show "extractQuantityFromPsets api elementID quantityNames = Returns None"
    by (simp add: extractQuantityFromPsets_def extractQuantityFromPsets_try_def)
next
  fix psets
  assume "GetLine api elementID True = Returns psets \<and>
            (\<not> truthy psets \<or> \<not> truthy (getProp psets ''IsDefinedBy'')
             \<or> forOf (getProp psets ''IsDefinedBy'') = Throws)"
  then show "extractQuantityFromPsets api elementID quantityNames = Returns None"
    by (auto simp: extractQuantityFromPsets_def extractQuantityFromPsets_try_def)
next
  fix psets rels
  assume "GetLine api elementID True = Returns psets \<and> truthy psets \<and>
            truthy (getProp psets ''IsDefinedBy'') \<and>
            forOf (getProp psets ''IsDefinedBy'') = Returns rels \<and>
            (\<forall>rel \<in> set rels. \<forall>n. relationBody api quantityNames rel \<noteq> Returns (Some n))"
  then show "extractQuantityFromPsets api elementID quantityNames = Returns None"
    by (simp add: extractQuantityFromPsets_def extractQuantityFromPsets_try_def relationsLoop_None)
next
  assume "GetLine api (getProp rel ''value'') True = Throws"
  then show "relationsLoop api quantityNames (rel # rels') = relationsLoop api quantityNames rels'"
    by (simp add: relationBody_def)
next
  fix quantity
  assume "GetLine api (getProp q ''value'') False = Returns quantity \<and>
            (\<forall>n. quantityValue quantity \<noteq> JNum n)"
  then show "quantitiesLoop api quantityNames (q # qs) = quantitiesLoop api quantityNames qs"
    using quantitiesLoop_skip by blast
qed











lemma exApi_sel [simp]:
  "GetLineIDsWithType exApi = exIDs" "GetLine exApi = exLines"
  "GetStoreyLine exApi = exStoreyLines" "GetRelContainedLine exApi = exContained"
  "GetRelAggregatesLine exApi = exAggregates"
  "GetLine exVolumeApi = exLines"
  by (simp_all add: exApi_def exVolumeApi_def)





theorem extractQuantityFromPsets_total_witness:
  "GetLine exApi (JNum 40) True = Throws \<and>
   extractQuantityFromPsets exApi (JNum 40) volumeNames = Returns None \<and>
   GetLine exApi (JNum 41) True = Returns JNull \<and>
   extractQuantityFromPsets exApi (JNum 41) volumeNames = Returns None \<and>
   GetLine exApi (JNum 43) True = Returns (JObj [(''IsDefinedBy'', JNum 7)]) \<and>
   forOf (JNum 7) = Throws \<and>
   extractQuantityFromPsets exApi (JNum 43) volumeNames = Returns None \<and>
   GetLine exApi (JNum 42) True =
     Returns (JObj [(''IsDefinedBy'', JArr [JNull, JObj [(''value'', JNum 299)]])]) \<and>
   relationBody exApi volumeNames JNull = Throws \<and>
   relationBody exApi volumeNames (JObj [(''value'', JNum 299)]) = Throws \<and>
   extractQuantityFromPsets exApi (JNum 42) volumeNames = Returns None \<and>
   relationsLoop exApi volumeNames [JObj [(''value'', JNum 299)], JObj [(''value'', JNum 300)]] =
     relationsLoop exApi volumeNames [JObj [(''value'', JNum 300)]] \<and>
   quantitiesLoop exApi volumeNames [JObj [(''value'', JNum 302)], JObj [(''value'', JNum 303)]] =
     quantitiesLoop exApi volumeNames [JObj [(''value'', JNum 303)]]"
proof -
  have l: "GetLine exApi (JNum 40) True = Throws"
    "GetLine exApi (JNum 41) True = Returns JNull"
    "GetLine exApi (JNum 43) True = Returns (JObj [(''IsDefinedBy'', JNum 7)])"
    "GetLine exApi (JNum 42) True =
       Returns (JObj [(''IsDefinedBy'', JArr [JNull, JObj [(''value'', JNum 299)]])])"
    "GetLine exApi (JNum 299) True = Throws"
    "GetLine exApi (JNum 302) False =
       Returns (JObj [(''Name'', JObj [(''value'', JStr ''Volume'')]),
                      (''VolumeValue'', JObj [(''value'', JStr ''n/a'')])])"
    by (simp_all add: exLines_def)
  have b: "relationBody exApi volumeNames JNull = Throws"
    "relationBody exApi volumeNames (JObj [(''value'', JNum 299)]) = Throws"
    by (simp_all add: relationBody_def exLines_def)
  have q: "\<forall>n. quantityValue (JObj [(''Name'', JObj [(''value'', JStr ''Volume'')]),
                      (''VolumeValue'', JObj [(''value'', JStr ''n/a'')])]) \<noteq> JNum n"
    by (simp add: quantityValue_def coalesce_def)
  note t = extractQuantityFromPsets_total
  from t[of exApi "JNum 40" volumeNames] l(1)
  have r40: "extractQuantityFromPsets exApi (JNum 40) volumeNames = Returns None" by blast
  from t[of exApi "JNum 41" volumeNames] l(2)
  have r41: "extractQuantityFromPsets exApi (JNum 41) volumeNames = Returns None" by simp
  from t[of exApi "JNum 43" volumeNames] l(3)
  have r43: "extractQuantityFromPsets exApi (JNum 43) volumeNames = Returns None" by simp
  from t[of exApi "JNum 42" volumeNames] l(4) b
  have r42: "extractQuantityFromPsets exApi (JNum 42) volumeNames = Returns None" by simp
  from t[of exApi "JNum 40" volumeNames "JObj [(''value'', JNum 299)]" "[JObj [(''value'', JNum 300)]]"
           "JObj [(''value'', JNum 302)]" "[JObj [(''value'', JNum 303)]]"] l(5,6) q
  have rq: "relationsLoop exApi volumeNames [JObj [(''value'', JNum 299)], JObj [(''value'', JNum 300)]] =
     relationsLoop exApi volumeNames [JObj [(''value'', JNum 300)]] \<and>
   quantitiesLoop exApi volumeNames [JObj [(''value'', JNum 302)], JObj [(''value'', JNum 303)]] =
     quantitiesLoop exApi volumeNames [JObj [(''value'', JNum 303)]]"
    by simp
  from l(1-4) b r40 r41 r43 r42 rq show ?thesis by simp
qed


section \<open>Properties of the storeys and the element assignment\<close>

lemma extends_refl [simp]: "extends ss ss"
  by (simp add: extends_def)

lemma extends_trans:
  assumes "extends a b" and "extends b c"
  shows "extends a c"
  unfolding extends_def
proof (intro conjI allI impI)
  show "length c = length a" using assms by (simp add: extends_def)
next
  fix j assume j: "j < length a"
  then have jb: "j < length b" using assms(1) by (simp add: extends_def)
  from assms(1) j have 1: "expressID (b ! j) = expressID (a ! j)"
    "elevation (b ! j) = elevation (a ! j)" "set (elementIDs (a ! j)) \<subseteq> set (elementIDs (b ! j))"
    by (simp_all add: extends_def)
  from assms(2) jb have 2: "expressID (c ! j) = expressID (b ! j)"
    "elevation (c ! j) = elevation (b ! j)" "set (elementIDs (b ! j)) \<subseteq> set (elementIDs (c ! j))"
    by (simp_all add: extends_def)
  show "expressID (c ! j) = expressID (a ! j)" using 1 2 by simp
  show "elevation (c ! j) = elevation (a ! j)" using 1 2 by simp
  show "set (elementIDs (a ! j)) \<subseteq> set (elementIDs (c ! j))" using 1 2 by blast
qed

lemma extends_pushElement: "extends ss (pushElement i e ss)"
proof (cases "i < length ss")
  case True
  then show ?thesis
    unfolding extends_def pushElement_def by (auto simp: nth_list_update)
next
  case False
  then have "length ss \<le> i" by simp
  then have "pushElement i e ss = ss" unfolding pushElement_def by (rule list_update_beyond)
  then show ?thesis by simp
qed

lemma extends_map_expressID: "extends ss ss' \<Longrightarrow> map expressID ss' = map expressID ss"
  by (rule nth_equalityI) (simp_all add: extends_def)

lemma extends_map_elevation: "extends ss ss' \<Longrightarrow> map elevation ss' = map elevation ss"
  by (rule nth_equalityI) (simp_all add: extends_def)



lemma findStorey_cong: "map expressID ss' = map expressID ss \<Longrightarrow> findStorey sid ss' = findStorey sid ss"
proof (induction ss arbitrary: ss')
  case Nil
  then show ?case by simp
next
  case (Cons s ss)
  then obtain t ts where t: "ss' = t # ts" by (cases ss') auto
  with Cons.prems have e: "expressID t = expressID s" "map expressID ts = map expressID ss"
    by simp_all
  have "findStorey sid ts = findStorey sid ss" by (rule Cons.IH[OF e(2)])
  then show ?case using t e(1) by simp
qed

lemma extends_containedLoop:
  "extends ss (fst (containedLoop i sid refs (ss, m)))"
proof (induction refs arbitrary: ss m)
  case Nil
  then show ?case by simp
next
  case (Cons r refs)
  show ?case
  proof (cases "elementRefID r")
    case None
    then show ?thesis using Cons.IH by simp
  next
    case (Some e)
    have "extends ss (fst (containedLoop i sid refs (pushElement i e ss, m(e \<mapsto> sid))))"
      by (rule extends_trans[OF extends_pushElement Cons.IH])
    then show ?thesis using Some by simp
  qed
qed

lemma extends_containedRelation: "extends (fst st) (fst (containedRelation api relID st))"
  by (cases st)
     (auto simp: containedRelation_def extends_containedLoop split: completion.splits option.splits)

lemma extends_containmentPass: "extends (fst st) (fst (containmentPass api relIDs st))"
proof (induction relIDs arbitrary: st)
  case Nil
  then show ?case by simp
next
  case (Cons r rs)
  have "extends (fst st) (fst (containmentPass api rs (containedRelation api r st)))"
    by (rule extends_trans[OF extends_containedRelation Cons.IH])
  then show ?case by simp
qed

lemma extends_aggregatedLoop:
  "extends ss (fst (aggregatedLoop i refs (ss, m)))"
proof (induction refs arbitrary: ss m)
  case Nil
  then show ?case by simp
next
  case (Cons r refs)
  show ?case
  proof (cases "refValue r")
    case None
    then show ?thesis using Cons.IH by simp
  next
    case (Some e)
    have "extends ss (fst (aggregatedLoop i refs (pushElement i e ss, m(e \<mapsto> expressID (ss ! i)))))"
      by (rule extends_trans[OF extends_pushElement Cons.IH])
    then show ?thesis using Some Cons.IH[of ss m] by simp
  qed
qed

lemma extends_aggregatesRelation: "extends (fst st) (fst (aggregatesRelation api relID st))"
  by (cases st)
     (auto simp: aggregatesRelation_def extends_aggregatedLoop split: completion.splits option.splits)

lemma extends_aggregationPass: "extends (fst st) (fst (aggregationPass api relIDs st))"
proof (induction relIDs arbitrary: st)
  case Nil
  then show ?case by simp
next
  case (Cons r rs)
  have "extends (fst st) (fst (aggregationPass api rs (aggregatesRelation api r st)))"
    by (rule extends_trans[OF extends_aggregatesRelation Cons.IH])
  then show ?case by simp
qed

lemma extends_assignElements: "extends ss (fst (assignElements api ss))"
proof -
  define st1 where "st1 = (case GetLineIDsWithType api IFCRELCONTAINEDINSPATIALSTRUCTURE of
                Throws \<Rightarrow> (ss, Map.empty)
              | Returns relIDs \<Rightarrow> containmentPass api relIDs (ss, Map.empty))"
  have a: "extends ss (fst st1)"
  proof (cases "GetLineIDsWithType api IFCRELCONTAINEDINSPATIALSTRUCTURE")
    case Throws
    then show ?thesis by (simp add: st1_def)
  next
    case (Returns relIDs)
    then show ?thesis
      using extends_containmentPass[of "(ss, Map.empty)" api relIDs] by (simp add: st1_def)
  qed
  have b: "extends (fst st1) (fst (assignElements api ss))"
  proof (cases "GetLineIDsWithType api IFCRELAGGREGATES")
    case Throws
    then show ?thesis by (simp add: assignElements_def st1_def)
  next
    case (Returns aggIDs)
    then have "assignElements api ss = aggregationPass api aggIDs st1"
      by (simp add: assignElements_def st1_def)
    then show ?thesis using extends_aggregationPass[of st1 api aggIDs] by simp
  qed
  from a b show ?thesis by (rule extends_trans)
qed

lemma storeyLoop_complete:
  "\<forall>sid \<in> set ids. GetStoreyLine api sid \<noteq> Throws \<Longrightarrow>
   snd (storeyLoop api ids i acc) = True \<and>
   map expressID (fst (storeyLoop api ids i acc)) = map expressID acc @ ids \<and>
   map elevation (fst (storeyLoop api ids i acc)) = map elevation acc @ map (storeyElevation api) ids"
proof (induction ids arbitrary: i acc)
  case Nil
  then show ?case by simp
next
  case (Cons sid ids)
  then obtain l where l: "GetStoreyLine api sid = Returns l"
    by (cases "GetStoreyLine api sid") auto
  show ?case
    using Cons.IH[of "i + 1" "acc @ [storeyRecord i sid l]"] Cons.prems l
    by (simp add: storeyRecord_def storeyElevation_def)
qed

lemma filter_by_key:
  "map elevation xs = map kf ids \<Longrightarrow> map expressID xs = ids \<Longrightarrow>
   map expressID (filter (\<lambda>s. elevation s = k) xs) = filter (\<lambda>sid. kf sid = k) ids"
proof (induction xs arbitrary: ids)
  case Nil
  then show ?case by simp
next
  case (Cons x xs)
  then obtain i ids' where "ids = i # ids'" by (cases ids) auto
  with Cons show ?case by auto
qed

lemma filter_same_keys:
  "map elevation xs = map elevation ys \<Longrightarrow> map expressID xs = map expressID ys \<Longrightarrow>
   map expressID (filter (\<lambda>s. elevation s = k) xs) = map expressID (filter (\<lambda>s. elevation s = k) ys)"
proof (induction xs arbitrary: ys)
  case Nil
  then show ?case by simp
next
  case (Cons x xs)
  then obtain y ys' where "ys = y # ys'" by (cases ys) auto
  with Cons show ?case by auto
qed

lemma parseStoreys_complete:
  assumes "GetLineIDsWithType api IFCBUILDINGSTOREY = Returns ids"
    and "\<forall>sid \<in> set ids. GetStoreyLine api sid \<noteq> Throws"
  shows "\<exists>recs. storeyLoop api ids 0 [] = (recs, True) \<and>
     map expressID recs = ids \<and> map elevation recs = map (storeyElevation api) ids \<and>
     parseStoreys api = fst (assignElements api (sort_key elevation recs))"
proof -
  obtain recs b where rb: "storeyLoop api ids 0 [] = (recs, b)"
    by (cases "storeyLoop api ids 0 []") blast
  from storeyLoop_complete[OF assms(2), of 0 "[]"] rb
  have c: "b = True" "map expressID recs = ids" "map elevation recs = map (storeyElevation api) ids"
    by simp_all
  have "parseStoreys api = fst (assignElements api (sort_key elevation recs))"
    using assms(1) rb c(1) by (simp add: parseStoreys_def)
  with rb c show ?thesis by blast
qed

text \<open>
  C7 (amended). When every discovered storey record decodes, the storeys of the parsed
  model are sorted by non-decreasing elevation, and the storeys of any one elevation
  appear in their discovery order. (When the record of a storey fails to decode, the
  storeys pushed before it are returned unsorted: see the counterexample below.)
\<close>

theorem storeys_sorted_stable:
  "(\<forall>sid \<in> set (discoveredStoreyIDs api). GetStoreyLine api sid \<noteq> Throws) \<longrightarrow>
     sorted (map elevation (storeys (parseIFCFile api))) \<and>
     (\<forall>k. map expressID (filter (\<lambda>s. elevation s = k) (storeys (parseIFCFile api))) =
          filter (\<lambda>sid. storeyElevation api sid = k) (discoveredStoreyIDs api))"
proof
  assume dec: "\<forall>sid \<in> set (discoveredStoreyIDs api). GetStoreyLine api sid \<noteq> Throws"
  show "sorted (map elevation (storeys (parseIFCFile api))) \<and>
     (\<forall>k. map expressID (filter (\<lambda>s. elevation s = k) (storeys (parseIFCFile api))) =
          filter (\<lambda>sid. storeyElevation api sid = k) (discoveredStoreyIDs api))"
  proof (cases "GetLineIDsWithType api IFCBUILDINGSTOREY")
    case Throws
    then show ?thesis
      by (simp add: parseIFCFile_def parseStoreys_def discoveredStoreyIDs_def)
  next
    case (Returns ids)
    then have d: "discoveredStoreyIDs api = ids" by (simp add: discoveredStoreyIDs_def)
    from dec d have "\<forall>sid \<in> set ids. GetStoreyLine api sid \<noteq> Throws" by simp
    from parseStoreys_complete[OF Returns this]
    obtain recs where recs: "map expressID recs = ids"
        "map elevation recs = map (storeyElevation api) ids"
        "parseStoreys api = fst (assignElements api (sort_key elevation recs))"
      by blast
    let ?sorted = "sort_key elevation recs"
    have ext: "extends ?sorted (parseStoreys api)"
      unfolding recs(3) by (rule extends_assignElements)
    have el: "map elevation (parseStoreys api) = map elevation ?sorted"
      and ex: "map expressID (parseStoreys api) = map expressID ?sorted"
      using ext by (rule extends_map_elevation, rule extends_map_expressID)
    have s: "sorted (map elevation (parseStoreys api))"
      unfolding el by (rule sorted_sort_key)
    have st: "map expressID (filter (\<lambda>s. elevation s = k) (parseStoreys api)) =
              filter (\<lambda>sid. storeyElevation api sid = k) ids" for k
    proof -
      have "map expressID (filter (\<lambda>s. elevation s = k) (parseStoreys api)) =
            map expressID (filter (\<lambda>s. elevation s = k) ?sorted)"
        by (rule filter_same_keys[OF el ex])
      also have "\<dots> = map expressID (filter (\<lambda>s. elevation s = k) recs)"
        by (simp only: sort_key_stable)
      also have "\<dots> = filter (\<lambda>sid. storeyElevation api sid = k) ids"
        by (rule filter_by_key[OF recs(2) recs(1)])
      finally show ?thesis .
    qed
    from s st d show ?thesis by (simp add: parseIFCFile_def)
  qed
qed



lemma length_pushElement [simp]: "length (pushElement i e ss) = length ss"
  by (simp add: pushElement_def)































lemma ex_storeyLoop: "storeyLoop exApi [1, 2, 3] 0 [] = (exRecords, True)"
  by (simp add: exStoreyLines_def storeyRecord_def exRecords_def digitsOf_small digit_def)

lemma ex_sort: "sort_key elevation exRecords = exSorted"
  by (simp add: exRecords_def exSorted_def)

lemma ex_containment:
  "containmentPass exApi [50, 51, 52] (exSorted, Map.empty) =
     ([\<lparr>name = ''Ground'', elevation = 0, expressID = 2, elementIDs = [20]\<rparr>,
       \<lparr>name = ''Upper'', elevation = 3, expressID = 1, elementIDs = [30, 31]\<rparr>,
       \<lparr>name = ''Storey 3'', elevation = 3, expressID = 3, elementIDs = []\<rparr>],
      [30 \<mapsto> 1, 31 \<mapsto> 1, 20 \<mapsto> 2])"
  by (simp add: containedRelation_def exContained_def exSorted_def pushElement_def)

lemma ex_enumerations:
  "GetLineIDsWithType exApi IFCBUILDINGSTOREY = Returns [1, 2, 3]"
  "GetLineIDsWithType exApi IFCRELCONTAINEDINSPATIALSTRUCTURE = Returns [50, 51, 52]"
  "GetLineIDsWithType exApi IFCRELAGGREGATES = Returns [60]"
  by (simp_all add: exIDs_def)

lemma ex_parseStoreys:
  "parseStoreys exApi =
     [\<lparr>name = ''Ground'', elevation = 0, expressID = 2, elementIDs = [20]\<rparr>,
      \<lparr>name = ''Upper'', elevation = 3, expressID = 1, elementIDs = [30, 31, 32]\<rparr>,
      \<lparr>name = ''Storey 3'', elevation = 3, expressID = 3, elementIDs = []\<rparr>]"
proof -
  have p: "parseStoreys exApi = fst (assignElements exApi exSorted)"
    by (simp only: parseStoreys_def ex_enumerations completion.case ex_storeyLoop prod.case
          bool.case ex_sort)
  have q: "assignElements exApi exSorted =
           aggregationPass exApi [60] (containmentPass exApi [50, 51, 52] (exSorted, Map.empty))"
    by (simp only: assignElements_def ex_enumerations completion.case Let_def)
  show ?thesis
    unfolding p q ex_containment
    by (simp add: aggregatesRelation_def exAggregates_def pushElement_def)
qed

lemma ex_broken_parseStoreys:
  "parseStoreys exBrokenStoreyApi =
     [\<lparr>name = ''Upper'', elevation = 3, expressID = 1, elementIDs = []\<rparr>,
      \<lparr>name = ''Ground'', elevation = 0, expressID = 2, elementIDs = []\<rparr>]"
proof -
  have a: "GetLineIDsWithType exBrokenStoreyApi IFCBUILDINGSTOREY = Returns [1, 2, 3]"
    by (simp add: exBrokenStoreyApi_def exIDs_def)
  have b: "storeyLoop exBrokenStoreyApi [1, 2, 3] 0 [] =
             ([\<lparr>name = ''Upper'', elevation = 3, expressID = 1, elementIDs = []\<rparr>,
               \<lparr>name = ''Ground'', elevation = 0, expressID = 2, elementIDs = []\<rparr>], False)"
    by (simp add: exBrokenStoreyApi_def exStoreyLines_def storeyRecord_def)
  show ?thesis
    by (simp only: parseStoreys_def a completion.case b prod.case bool.case)
qed


theorem storeys_sorted_stable_witness:
  "discoveredStoreyIDs exApi = [1, 2, 3] \<and>
   GetStoreyLine exApi 1 \<noteq> Throws \<and> GetStoreyLine exApi 2 \<noteq> Throws \<and>
   GetStoreyLine exApi 3 \<noteq> Throws \<and>
   map expressID (storeys (parseIFCFile exApi)) = [2, 1, 3] \<and>
   sorted (map elevation (storeys (parseIFCFile exApi))) \<and>
   map expressID (filter (\<lambda>s. elevation s = 3) (storeys (parseIFCFile exApi))) = [1, 3]"
proof -
  have d: "discoveredStoreyIDs exApi = [1, 2, 3]"
    by (simp add: discoveredStoreyIDs_def exIDs_def)
  have l: "GetStoreyLine exApi 1 \<noteq> Throws" "GetStoreyLine exApi 2 \<noteq> Throws"
    "GetStoreyLine exApi 3 \<noteq> Throws"
    by (simp_all add: exStoreyLines_def)
  have h: "\<forall>sid \<in> set (discoveredStoreyIDs exApi). GetStoreyLine exApi sid \<noteq> Throws"
    unfolding d using l by simp
  have f: "filter (\<lambda>sid. storeyElevation exApi sid = 3) (discoveredStoreyIDs exApi) = [1, 3]"
    unfolding d by (simp add: storeyElevation_def exStoreyLines_def)
  have e: "map expressID (storeys (parseIFCFile exApi)) = [2, 1, 3]"
    by (simp add: parseIFCFile_def ex_parseStoreys)
  from storeys_sorted_stable[of exApi] h
  have "sorted (map elevation (storeys (parseIFCFile exApi))) \<and>
     (\<forall>k. map expressID (filter (\<lambda>s. elevation s = k) (storeys (parseIFCFile exApi))) =
          filter (\<lambda>sid. storeyElevation exApi sid = k) (discoveredStoreyIDs exApi))"
    by blast
  then have "sorted (map elevation (storeys (parseIFCFile exApi)))"
    and "map expressID (filter (\<lambda>s. elevation s = 3) (storeys (parseIFCFile exApi))) = [1, 3]"
    using f by simp_all
  with d l e show ?thesis by blast
qed

text \<open>
  The claim as stated, for every parsed model, fails: the third storey record does not
  decode, the enclosing \<open>try\<close> is left before the sort, and the model keeps the first
  two storeys in discovery order, elevations 3 and 0.
\<close>

theorem storeys_unsorted_counterexample:
  "map elevation (storeys (parseIFCFile exBrokenStoreyApi)) = [3, 0] \<and>
   \<not> sorted (map elevation (storeys (parseIFCFile exBrokenStoreyApi)))"
  by (simp add: parseIFCFile_def ex_broken_parseStoreys)

lemma map_expressID_pushElement [simp]: "map expressID (pushElement i e ss) = map expressID ss"
  by (rule extends_map_expressID[OF extends_pushElement])

lemma findStorey_pushElement [simp]: "findStorey sid (pushElement i e ss) = findStorey sid ss"
  by (rule findStorey_cong) simp






























end
